theory Spec2Isabelle
  imports Main "HOL-Library.Word"
begin

unbundle bit_operations_syntax

section \<open>The bootstrap program of hello-2-nolibs\<close>

text \<open>
  The development embeds \<^verbatim>\<open>solutions/hello-2-nolibs/src/main.c\<close>: the grant search
  \<^verbatim>\<open>get_untyped\<close> and the function \<^verbatim>\<open>main\<close>, which retypes two untyped
  capabilities into a thread control block and a scheduling context, configures both and
  starts a second thread.

  The machine word \<^verbatim>\<open>seL4_Word\<close> (also \<^verbatim>\<open>seL4_CPtr\<close>, \<^verbatim>\<open>uintptr_t\<close> and
  \<^verbatim>\<open>unsigned long\<close>) is \<open>'a word\<close> for a word length \<open>'a\<close>, so that one model covers
  the 32 bit and the 64 bit platforms. A C \<^verbatim>\<open>int\<close> is a 32 bit word read as two's
  complement wherever its sign matters.
\<close>

subsection \<open>Data\<close>

type_synonym c_int = "32 word"
type_synonym seL4_Uint8 = "8 word"
type_synonym seL4_Time = "64 word"

text \<open>
  The boot info structures are declared in the headers of libsel4, outside this
  repository. The records hold the fields that \<^verbatim>\<open>main.c\<close> reads, under the names it
  uses; the C field \<^verbatim>\<open>end\<close> of a slot region, which is exclusive, is \<open>end_excl\<close>.
\<close>

record 'w seL4_SlotRegion =
  start :: "'w"
  end_excl :: "'w"

record seL4_UntypedDesc =
  sizeBits :: seL4_Uint8

record 'w seL4_BootInfo =
  nodeID :: "'w"
  empty :: "'w seL4_SlotRegion"
  untyped :: "'w seL4_SlotRegion"
  schedcontrol :: "'w seL4_SlotRegion"
  untypedList :: "seL4_UntypedDesc list"

text \<open>
  The register set, with the fields and their order as the comment in \<^verbatim>\<open>main\<close>
  quotes them.
\<close>

record 'w seL4_UserContext =
  eip :: "'w"
  esp :: "'w"
  eflags :: "'w"
  eax :: "'w"
  ebx :: "'w"
  ecx :: "'w"
  edx :: "'w"
  esi :: "'w"
  edi :: "'w"
  ebp :: "'w"
  tls_base :: "'w"
  fs :: "'w"
  gs :: "'w"

subsection \<open>The grant search\<close>

text \<open>The macro \<^verbatim>\<open>BIT(n)\<close> of libutils is \<^verbatim>\<open>1ul << n\<close>.\<close>

definition BIT :: "nat \<Rightarrow> 'a::len word" where
  "BIT n = push_bit n 1"

definition INT_MAX :: c_int where
  "INT_MAX = 0x7FFFFFFF"

lemma sint_succ: "sint (i + 1) = sint i + 1" if "i \<noteq> INT_MAX" for i :: c_int
proof -
  have "sint i \<noteq> 2 ^ 31 - 1"
  proof
    assume "sint i = 2 ^ 31 - 1"
    then have "word_of_int (sint i) = (word_of_int (2 ^ 31 - 1) :: c_int)" by simp
    then have "i = INT_MAX" by (simp add: INT_MAX_def)
    with that show False by simp
  qed
  moreover have "sint i < 2 ^ 31" using sint_lt [of i] by simp
  moreover have "- (2 ^ 31) \<le> sint i" using sint_ge [of i] by simp
  ultimately have "- (2 ^ 31) \<le> sint i + 1" "sint i + 1 < 2 ^ 31" by simp_all
  then have "signed_take_bit 31 (sint i + 1) = sint i + 1"
    by (simp add: signed_take_bit_int_eq_self)
  then show ?thesis by (simp add: sint_word_add)
qed

text \<open>
  The loop of \<^verbatim>\<open>get_untyped\<close>:
  \<^verbatim>\<open>for (int i = info->untyped.start, idx = 0; i < info->untyped.end; ++i, ++idx)\<close>
  with the body
  \<^verbatim>\<open>if (BIT(info->untypedList[idx].sizeBits) >= size_bytes) return i;\<close>
  and \<^verbatim>\<open>return -1\<close> after it.

  \<open>i\<close> is a C \<^verbatim>\<open>int\<close>. The comparison with \<^verbatim>\<open>untyped.end\<close> and the comparison of
  \<^verbatim>\<open>size_bytes\<close> with the \<^verbatim>\<open>unsigned long\<close> value of \<^verbatim>\<open>BIT\<close> convert the
  \<^verbatim>\<open>int\<close> to the unsigned word (\<open>scast\<close>: the sign is extended where the word is wider),
  and so does the \<^verbatim>\<open>return i\<close>. The function receives a pointer to the boot info; the
  model returns the boot info as it stands at the return next to the result, so that
  what the call leaves of it is stated and not assumed.

  The result is \<open>None\<close> where the C program has no defined behaviour: a read past the
  end of \<^verbatim>\<open>untypedList\<close>, a shift by the width of the word or more, and the overflow
  of \<^verbatim>\<open>++i\<close>.
\<close>

function get_untyped_loop ::
  "'a::len word seL4_BootInfo \<Rightarrow> c_int \<Rightarrow> c_int \<Rightarrow> nat \<Rightarrow>
   ('a word \<times> 'a word seL4_BootInfo) option"
where
  "get_untyped_loop info size_bytes i idx =
     (if (scast i :: 'a word) < end_excl (untyped info) then
        if length (untypedList info) \<le> idx
           \<or> LENGTH('a) \<le> unat (sizeBits (untypedList info ! idx)) then None
        else if (scast size_bytes :: 'a word) \<le> BIT (unat (sizeBits (untypedList info ! idx)))
          then Some (scast i, info)
        else if i = INT_MAX then None
        else get_untyped_loop info size_bytes (i + 1) (idx + 1)
      else Some (- 1, info))"
  by pat_completeness auto
termination
proof (relation "measure (\<lambda>(info, size_bytes, i, idx). nat (2 ^ 31 - sint i))")
  show "wf (measure (\<lambda>(info :: 'a word seL4_BootInfo, size_bytes :: c_int, i :: c_int, idx :: nat).
    nat (2 ^ 31 - sint i)))"
    by simp
next
  fix size_bytes i :: c_int and info :: "'a word seL4_BootInfo" and idx :: nat
  assume "i \<noteq> INT_MAX"
  then have "sint (i + 1) = sint i + 1" by (rule sint_succ)
  moreover have "sint i < 2 ^ 31" using sint_lt [of i] by simp
  ultimately show "((info, size_bytes, i + 1, idx + 1), (info, size_bytes, i, idx))
    \<in> measure (\<lambda>(info, size_bytes, i, idx). nat (2 ^ 31 - sint i))"
    by simp
qed

declare get_untyped_loop.simps [simp del]

text \<open>
  \<^verbatim>\<open>seL4_CPtr get_untyped(seL4_BootInfo *info, int size_bytes)\<close>: the loop from
  \<^verbatim>\<open>i = info->untyped.start\<close> (converted to \<^verbatim>\<open>int\<close>) and \<^verbatim>\<open>idx = 0\<close>.
\<close>

definition get_untyped ::
  "'a::len word seL4_BootInfo \<Rightarrow> c_int \<Rightarrow> ('a word \<times> 'a word seL4_BootInfo) option"
where
  "get_untyped info size_bytes =
     get_untyped_loop info size_bytes (ucast (start (untyped info))) 0"

text \<open>
  The vocabulary of the statements about the search: the number of untyped capabilities
  the boot info announces, the size in bytes of the \<open>k\<close>-th of them, and the boot infos
  on which every step of the loop is defined: the region is ordered, its capability
  indices fit a non-negative \<^verbatim>\<open>int\<close>, the list has a descriptor for every capability,
  and every size exponent is below the width of the word.
\<close>

definition untyped_count :: "'a::len word seL4_BootInfo \<Rightarrow> nat" where
  "untyped_count info = unat (end_excl (untyped info)) - unat (start (untyped info))"

definition grant_size :: "'a::len word seL4_BootInfo \<Rightarrow> nat \<Rightarrow> nat" where
  "grant_size info k = 2 ^ unat (sizeBits (untypedList info ! k))"

definition valid_untypeds :: "'a::len word seL4_BootInfo \<Rightarrow> bool" where
  "valid_untypeds info \<longleftrightarrow>
     start (untyped info) \<le> end_excl (untyped info) \<and>
     unat (end_excl (untyped info)) < 2 ^ 31 \<and>
     untyped_count info \<le> length (untypedList info) \<and>
     (\<forall>k < untyped_count info. unat (sizeBits (untypedList info ! k)) < LENGTH('a))"

subsection \<open>The kernel invocations\<close>

text \<open>
  \<^verbatim>\<open>main\<close> talks to the kernel through five stubs of libsel4. An invocation records
  the stub and the argument values \<^verbatim>\<open>main\<close> passes, in the order of the call. The
  kernel itself is not part of the repository: it is a parameter of the model, a
  function from an invocation and the kernel's state to the error code it answers and
  its next state.
\<close>

datatype seL4_ObjectType = seL4_TCBObject | seL4_SchedContextObject

datatype 'w invocation =
    seL4_Untyped_Retype "'w" seL4_ObjectType "'w" "'w" "'w" "'w" "'w" "'w"
  | seL4_SchedControl_Configure "'w" "'w" seL4_Time seL4_Time "'w"
  | seL4_TCB_Configure "'w" "'w" "'w \<times> 'w" "'w" "'w" "'w" "'w" "'w" "'w" "'w"
  | seL4_TCB_WriteRegisters "'w" bool seL4_Uint8 "'w" "'w seL4_UserContext"
  | seL4_TCB_Resume "'w"

type_synonym ('w, 'k) kernel = "'w invocation \<Rightarrow> 'k \<Rightarrow> c_int \<times> 'k"

text \<open>
  The constants of libsel4 whose values depend on the platform and the kernel
  configuration are parameters as well.
\<close>

record 'w libsel4 =
  seL4_TCBBits :: nat
  seL4_MinSchedContextBits :: nat
  seL4_CapInitThreadCNode :: "'w"
  seL4_CapInitThreadPD :: "'w"
  seL4_MaxPrio :: "'w"
  seL4_NilData :: "'w"

definition seL4_CapNull :: "'a::len word" where
  "seL4_CapNull = 0"

definition seL4_NoError :: c_int where
  "seL4_NoError = 0"

text \<open>Microseconds in a millisecond (\<^verbatim>\<open>utils/time.h\<close>).\<close>

definition US_IN_MS :: seL4_Time where
  "US_IN_MS = 1000"

subsection \<open>The stack of the new thread\<close>

text \<open>
  \<^verbatim>\<open>static uint64_t thread_2_stack[THREAD_2_STACK_SIZE]\<close>: the address of the array is a
  parameter, its size is \<open>512 * 8\<close> bytes.
  \<^verbatim>\<open>stack_alignment_requirement = sizeof(seL4_Word) * 2\<close> is an \<^verbatim>\<open>int\<close>, and
  \<^verbatim>\<open>thread_2_stack_top = (uintptr_t)thread_2_stack + sizeof(thread_2_stack)\<close>.
\<close>

definition THREAD_2_STACK_SIZE :: nat where
  "THREAD_2_STACK_SIZE = 512"

definition sizeof_seL4_Word :: "'a::len itself \<Rightarrow> nat" where
  "sizeof_seL4_Word _ = LENGTH('a) div 8"

definition stack_alignment_requirement :: "'a::len itself \<Rightarrow> c_int" where
  "stack_alignment_requirement _ = of_nat (sizeof_seL4_Word TYPE('a) * 2)"

definition thread_2_stack_top :: "'a::len word \<Rightarrow> 'a word" where
  "thread_2_stack_top thread_2_stack = thread_2_stack + of_nat (THREAD_2_STACK_SIZE * 8)"

subsection \<open>main\<close>

text \<open>
  Each \<^verbatim>\<open>ZF_LOGF_IF\<close> and \<^verbatim>\<open>ZF_LOGF_IFERR\<close> of \<^verbatim>\<open>main\<close> logs a fatal message and
  ends the program; \<open>fatal\<close> names them in the order of the source.
\<close>

datatype fatal =
    Failed_to_allocate_TCB
  | Failed_to_allocate_SC
  | Failed_to_find_sched_control
  | Failed_to_configure_SC
  | Failed_to_configure_TCB
  | Stack_top_misaligned
  | Failed_to_write_registers
  | Failed_to_start_thread

datatype outcome = Undefined | Fatal fatal | Return c_int

text \<open>
  \<^verbatim>\<open>int main(void)\<close>, statement by statement. Its inputs are the boot info that
  \<^verbatim>\<open>get_bootinfo\<close> returns, the addresses of the function \<^verbatim>\<open>thread_2\<close> and of the
  array \<^verbatim>\<open>thread_2_stack\<close>, the kernel and its state. Logging, printing and the naming
  of threads do not bear on the result and are left out. \<open>Undefined\<close> is the outcome
  when a call of \<^verbatim>\<open>get_untyped\<close> has no defined behaviour.
\<close>

definition main ::
  "'a::len word libsel4 \<Rightarrow> ('a word, 'k) kernel \<Rightarrow> 'a word \<Rightarrow> 'a word \<Rightarrow>
   'a word seL4_BootInfo \<Rightarrow> 'k \<Rightarrow> outcome \<times> 'k"
where
  "main lib kern thread_2 thread_2_stack info k0 =
    (let cspace_cap = seL4_CapInitThreadCNode lib;
         pd_cap = seL4_CapInitThreadPD lib;
         tcb_cap = start (empty info)
     in case get_untyped info (ucast (BIT (seL4_TCBBits lib) :: 'a word)) of
          None \<Rightarrow> (Undefined, k0)
        | Some (untyped1, info1) \<Rightarrow>
     let (error, k1) = kern (seL4_Untyped_Retype untyped1 seL4_TCBObject
                          (of_nat (seL4_TCBBits lib)) cspace_cap cspace_cap 32 tcb_cap 1) k0
     in if error \<noteq> seL4_NoError then (Fatal Failed_to_allocate_TCB, k1) else
     let sc_cap = tcb_cap + 1
     in case get_untyped info1 (push_bit (seL4_MinSchedContextBits lib) 1) of
          None \<Rightarrow> (Undefined, k1)
        | Some (untyped2, info2) \<Rightarrow>
     let (error, k2) = kern (seL4_Untyped_Retype untyped2 seL4_SchedContextObject
                          (of_nat (seL4_MinSchedContextBits lib)) cspace_cap cspace_cap 32
                          sc_cap 1) k1
     in if error \<noteq> seL4_NoError then (Fatal Failed_to_allocate_SC, k2) else
     let sched_control = start (schedcontrol info2) + nodeID info2
     in if sched_control = seL4_CapNull then (Fatal Failed_to_find_sched_control, k2) else
     let (error, k3) = kern (seL4_SchedControl_Configure sched_control sc_cap
                          (10 * US_IN_MS) (10 * US_IN_MS) 0) k2
     in if error \<noteq> seL4_NoError then (Fatal Failed_to_configure_SC, k3) else
     let (error, k4) = kern (seL4_TCB_Configure tcb_cap seL4_CapNull
                          (seL4_MaxPrio lib, seL4_MaxPrio lib) sc_cap
                          cspace_cap (seL4_NilData lib) pd_cap (seL4_NilData lib) 0 0) k3
     in if error \<noteq> seL4_NoError then (Fatal Failed_to_configure_TCB, k4) else
     if thread_2_stack_top thread_2_stack mod scast (stack_alignment_requirement TYPE('a)) \<noteq> 0
     then (Fatal Stack_top_misaligned, k4) else
     let regs = \<lparr>eip = thread_2, esp = thread_2_stack_top thread_2_stack,
                 eflags = 0, eax = 0, ebx = 0, ecx = 0, edx = 0, esi = 0, edi = 0, ebp = 0,
                 tls_base = 0, fs = 0, gs = 0\<rparr>;
         (error, k5) = kern (seL4_TCB_WriteRegisters tcb_cap False 0 2 regs) k4
     in if error \<noteq> seL4_NoError then (Fatal Failed_to_write_registers, k5) else
     let (error, k6) = kern (seL4_TCB_Resume tcb_cap) k5
     in if error \<noteq> seL4_NoError then (Fatal Failed_to_start_thread, k6) else
     (Return 0, k6))"

text \<open>
  To speak about the invocations a run makes, the kernel is wrapped so that it keeps a
  log: \<open>run\<close> is \<open>main\<close> on the wrapped kernel and yields the outcome with the
  invocations in the order they were made.
\<close>

definition recording :: "('w, 'k) kernel \<Rightarrow> ('w, 'k \<times> 'w invocation list) kernel" where
  "recording kern call s =
     (case kern call (fst s) of (error, k) \<Rightarrow> (error, (k, snd s @ [call])))"

definition run ::
  "'a::len word libsel4 \<Rightarrow> ('a word, 'k) kernel \<Rightarrow> 'a word \<Rightarrow> 'a word \<Rightarrow>
   'a word seL4_BootInfo \<Rightarrow> 'k \<Rightarrow> outcome \<times> 'a word invocation list"
where
  "run lib kern thread_2 thread_2_stack info k0 =
     (case main lib (recording kern) thread_2 thread_2_stack info (k0, []) of
        (out, (k, calls)) \<Rightarrow> (out, calls))"

subsection \<open>What a register write transfers\<close>

text \<open>
  The registers of a register set in the order of the fields of \<^verbatim>\<open>seL4_UserContext\<close>,
  and the register set of such a list.
\<close>

definition register_list :: "'w seL4_UserContext \<Rightarrow> 'w list" where
  "register_list c =
     [eip c, esp c, eflags c, eax c, ebx c, ecx c, edx c, esi c, edi c, ebp c,
      tls_base c, fs c, gs c]"

definition of_register_list :: "'w list \<Rightarrow> 'w seL4_UserContext" where
  "of_register_list rs =
     \<lparr>eip = rs ! 0, esp = rs ! 1, eflags = rs ! 2, eax = rs ! 3, ebx = rs ! 4, ecx = rs ! 5,
      edx = rs ! 6, esi = rs ! 7, edi = rs ! 8, ebp = rs ! 9, tls_base = rs ! 10,
      fs = rs ! 11, gs = rs ! 12\<rparr>"

text \<open>
  Modelled from the spec: the kernel's side of \<^verbatim>\<open>seL4_TCB_WriteRegisters\<close>, the effect
  of the invocation on the register file of the thread, is missing from the sources. The
  spec says of it: "Writes exactly the instruction-pointer and stack-pointer registers;
  all other registers are left at their object-creation default (zero)", and \<^verbatim>\<open>main.c\<close>
  says of its call with a count of 2: "we write 2 registers: instruction pointer is
  first, stack pointer is second". So a write of \<open>count\<close> registers replaces the first
  \<open>count\<close> registers of the thread, in the order of the fields, by those of the
  register set passed, and leaves the others as they are.
\<close>

definition write_registers ::
  "nat \<Rightarrow> 'w seL4_UserContext \<Rightarrow> 'w seL4_UserContext \<Rightarrow> 'w seL4_UserContext"
where
  "write_registers count regs tcb =
     of_register_list (take count (register_list regs) @ drop count (register_list tcb))"

text \<open>
  Modelled from the spec: the creation of a thread object by the kernel is missing from
  the sources. The spec says that the registers of a new execution context are at "their
  object-creation default (zero)"; \<open>zero_registers\<close> is that register file.
\<close>

definition zero_registers :: "'a::len word seL4_UserContext" where
  "zero_registers =
     \<lparr>eip = 0, esp = 0, eflags = 0, eax = 0, ebx = 0, ecx = 0, edx = 0, esi = 0, edi = 0,
      ebp = 0, tls_base = 0, fs = 0, gs = 0\<rparr>"

subsection \<open>A concrete bootstrap\<close>

text \<open>
  The scenario the examples below run: two untyped capabilities, 50 and 51, of 4096 and
  65536 bytes, the free slots 100 to 109, a thread control block of 4096 bytes and a
  scheduling context of 65536 bytes, and a kernel that accepts every invocation.
\<close>

definition scenario_lib :: "'a::len word libsel4" where
  "scenario_lib =
     \<lparr>seL4_TCBBits = 12, seL4_MinSchedContextBits = 16, seL4_CapInitThreadCNode = 2,
      seL4_CapInitThreadPD = 3, seL4_MaxPrio = 255, seL4_NilData = 0\<rparr>"

definition scenario_info :: "'a::len word seL4_BootInfo" where
  "scenario_info =
     \<lparr>nodeID = 0, empty = \<lparr>start = 100, end_excl = 110\<rparr>,
      untyped = \<lparr>start = 50, end_excl = 52\<rparr>,
      schedcontrol = \<lparr>start = 40, end_excl = 41\<rparr>,
      untypedList = [\<lparr>sizeBits = 12\<rparr>, \<lparr>sizeBits = 16\<rparr>]\<rparr>"

definition accepting :: "('w, unit) kernel" where
  "accepting call k = (seL4_NoError, k)"

section \<open>Conversions between the integer types\<close>

lemma scast_of_nat_small:
  assumes "m < 2 ^ 31"
  shows "(scast (of_nat m :: c_int) :: 'a::len word) = of_nat m"
proof -
  have "sint (of_nat m :: c_int) = signed_take_bit 31 (int m)"
    by (simp add: signed_of_nat)
  also have "\<dots> = int m"
    using assms by (simp add: signed_take_bit_int_eq_self)
  finally show ?thesis by (simp add: scast_eq)
qed

lemma unat_of_nat_small:
  assumes "32 \<le> LENGTH('a::len)" "m < 2 ^ 31"
  shows "unat (of_nat m :: 'a word) = m"
proof -
  have "(2::nat) ^ 31 < 2 ^ LENGTH('a)"
    by (rule power_strict_increasing) (use assms(1) in simp_all)
  with assms(2) have "m < 2 ^ LENGTH('a)" by simp
  then show ?thesis by (simp add: unat_of_nat)
qed

lemma of_nat_ne_INT_MAX:
  assumes "Suc m < 2 ^ 31"
  shows "(of_nat m :: c_int) \<noteq> INT_MAX"
proof
  assume "(of_nat m :: c_int) = INT_MAX"
  then have "unat (of_nat m :: c_int) = unat INT_MAX" by simp
  moreover have "unat (of_nat m :: c_int) = m"
    using assms by (simp add: unat_of_nat)
  ultimately show False using assms by (simp add: INT_MAX_def)
qed

lemma unat_scast_nonneg:
  assumes "32 \<le> LENGTH('a::len)" "0 \<le> sint (R :: c_int)"
  shows "unat (scast R :: 'a word) = nat (sint R)"
proof -
  have "sint R < 2 ^ 31" using sint_lt [of R] by simp
  then have "nat (sint R) < 2 ^ 31" using assms(2) by (simp add: nat_less_iff)
  moreover have "(scast R :: 'a word) = of_nat (nat (sint R))"
    unfolding scast_eq using assms(2) by (rule word_of_int_nat)
  ultimately show ?thesis using assms(1) by (simp add: unat_of_nat_small)
qed

lemma unat_BIT:
  assumes "n < LENGTH('a::len)"
  shows "unat (BIT n :: 'a word) = 2 ^ n"
proof -
  have "(2::nat) ^ n < 2 ^ LENGTH('a)"
    by (rule power_strict_increasing) (use assms in simp_all)
  moreover have "(BIT n :: 'a word) = of_nat (2 ^ n)"
    by (simp add: BIT_def)
  ultimately show ?thesis by (simp only: unat_of_nat mod_less)
qed

lemma ucast_BIT:
  assumes "32 \<le> LENGTH('a::len)" "n < 31"
  shows "(ucast (BIT n :: 'a word) :: c_int) = 2 ^ n" "0 \<le> sint ((2 :: c_int) ^ n)"
    "nat (sint ((2 :: c_int) ^ n)) = 2 ^ n"
proof -
  have "(ucast (BIT n :: 'a word) :: c_int) = of_nat (unat (BIT n :: 'a word))" by simp
  also have "unat (BIT n :: 'a word) = 2 ^ n"
    using assms by (intro unat_BIT) simp
  finally show "(ucast (BIT n :: 'a word) :: c_int) = 2 ^ n" by simp
  have "(2::int) ^ n < 2 ^ 31"
    by (rule power_strict_increasing) (use assms(2) in simp_all)
  moreover have "- (2 ^ 31) \<le> (0::int)" "(0::int) \<le> 2 ^ n" by simp_all
  then have "- (2 ^ 31) \<le> (2::int) ^ n" by (rule order_trans)
  ultimately have "signed_take_bit 31 ((2::int) ^ n) = 2 ^ n"
    by (intro signed_take_bit_int_eq_self)
  moreover have "sint ((2 :: c_int) ^ n) = signed_take_bit 31 ((2::int) ^ n)"
    using signed_of_int [where 'b = 32 and 'a = int, of "2 ^ n"] by simp
  ultimately have s: "sint ((2 :: c_int) ^ n) = 2 ^ n" by simp
  show "0 \<le> sint ((2 :: c_int) ^ n)" unfolding s by simp
  show "nat (sint ((2 :: c_int) ^ n)) = 2 ^ n" unfolding s by (simp add: nat_power_eq)
qed

section \<open>The grant search is first fit\<close>

text \<open>One step of the loop on a valid boot info: the guard, the comparison, a hit, a miss.\<close>

lemma loop_guard:
  fixes info :: "'a::len word seL4_BootInfo"
  assumes L: "32 \<le> LENGTH('a)" and V: "valid_untypeds info"
    and idx: "idx \<le> untyped_count info"
  shows "(scast (of_nat (unat (start (untyped info)) + idx) :: c_int) :: 'a word)
           < end_excl (untyped info) \<longleftrightarrow> idx < untyped_count info"
proof -
  let ?m = "unat (start (untyped info)) + idx"
  have le: "unat (start (untyped info)) \<le> unat (end_excl (untyped info))"
    using V by (simp add: valid_untypeds_def word_le_nat_alt)
  have m: "?m \<le> unat (end_excl (untyped info))"
    using idx le by (simp add: untyped_count_def)
  have small: "?m < 2 ^ 31"
    using m V by (simp add: valid_untypeds_def)
  have "(scast (of_nat ?m :: c_int) :: 'a word) = of_nat ?m"
    using small by (rule scast_of_nat_small)
  moreover have "unat (of_nat ?m :: 'a word) = ?m"
    using L small by (rule unat_of_nat_small)
  ultimately have "(scast (of_nat ?m :: c_int) :: 'a word) < end_excl (untyped info)
      \<longleftrightarrow> ?m < unat (end_excl (untyped info))"
    by (simp only: word_less_nat_alt)
  also have "\<dots> \<longleftrightarrow> idx < untyped_count info"
    using le by (auto simp: untyped_count_def)
  finally show ?thesis .
qed

lemma loop_exit:
  fixes info :: "'a::len word seL4_BootInfo"
  assumes "32 \<le> LENGTH('a)" "valid_untypeds info"
  shows "get_untyped_loop info R
           (of_nat (unat (start (untyped info)) + untyped_count info)) (untyped_count info)
         = Some (- 1, info)"
  using loop_guard [OF assms, of "untyped_count info"]
  by (subst get_untyped_loop.simps) simp

lemma loop_compare:
  fixes info :: "'a::len word seL4_BootInfo"
  assumes L: "32 \<le> LENGTH('a)" and V: "valid_untypeds info"
    and idx: "idx < untyped_count info" and R: "0 \<le> sint (R :: c_int)"
  shows "(scast R :: 'a word) \<le> BIT (unat (sizeBits (untypedList info ! idx)))
           \<longleftrightarrow> nat (sint R) \<le> grant_size info idx"
proof -
  have "unat (sizeBits (untypedList info ! idx)) < LENGTH('a)"
    using V idx by (simp add: valid_untypeds_def)
  then have "unat (BIT (unat (sizeBits (untypedList info ! idx))) :: 'a word)
      = grant_size info idx"
    by (simp add: unat_BIT grant_size_def)
  moreover have "unat (scast R :: 'a word) = nat (sint R)"
    using L R by (rule unat_scast_nonneg)
  ultimately show ?thesis by (simp only: word_le_nat_alt)
qed

lemma loop_hit:
  fixes info :: "'a::len word seL4_BootInfo"
  assumes L: "32 \<le> LENGTH('a)" and V: "valid_untypeds info"
    and idx: "idx < untyped_count info" and R: "0 \<le> sint R"
    and fit: "nat (sint R) \<le> grant_size info idx"
  shows "get_untyped_loop info R (of_nat (unat (start (untyped info)) + idx)) idx
         = Some (start (untyped info) + of_nat idx, info)"
proof -
  let ?m = "unat (start (untyped info)) + idx"
  have guard: "(scast (of_nat ?m :: c_int) :: 'a word) < end_excl (untyped info)"
    using loop_guard [OF L V, of idx] idx by simp
  have inlist: "\<not> length (untypedList info) \<le> idx"
    using V idx by (simp add: valid_untypeds_def)
  have shift: "\<not> LENGTH('a) \<le> unat (sizeBits (untypedList info ! idx))"
    using V idx by (simp add: valid_untypeds_def not_le)
  have cmp: "(scast R :: 'a word) \<le> BIT (unat (sizeBits (untypedList info ! idx)))"
    using loop_compare [OF L V idx R] fit by simp
  have le: "unat (start (untyped info)) \<le> unat (end_excl (untyped info))"
    using V by (simp add: valid_untypeds_def word_le_nat_alt)
  have "unat (end_excl (untyped info)) < 2 ^ 31"
    using V by (simp add: valid_untypeds_def)
  moreover have "?m < unat (end_excl (untyped info))"
    using idx le unfolding untyped_count_def by linarith
  ultimately have "?m < 2 ^ 31" by linarith
  then have "(scast (of_nat ?m :: c_int) :: 'a word) = of_nat ?m"
    by (rule scast_of_nat_small)
  then have res: "(scast (of_nat ?m :: c_int) :: 'a word) = start (untyped info) + of_nat idx"
    by simp
  show ?thesis
    by (subst get_untyped_loop.simps)
      (simp only: guard guard [unfolded res] inlist shift cmp res if_True if_False simp_thms)
qed

lemma loop_miss:
  fixes info :: "'a::len word seL4_BootInfo"
  assumes L: "32 \<le> LENGTH('a)" and V: "valid_untypeds info"
    and idx: "idx < untyped_count info" and R: "0 \<le> sint R"
    and nofit: "grant_size info idx < nat (sint R)"
  shows "get_untyped_loop info R (of_nat (unat (start (untyped info)) + idx)) idx
         = get_untyped_loop info R (of_nat (unat (start (untyped info)) + Suc idx)) (Suc idx)"
proof -
  let ?m = "unat (start (untyped info)) + idx"
  have guard: "(scast (of_nat ?m :: c_int) :: 'a word) < end_excl (untyped info)"
    using loop_guard [OF L V, of idx] idx by simp
  have inlist: "\<not> length (untypedList info) \<le> idx"
    using V idx by (simp add: valid_untypeds_def)
  have shift: "\<not> LENGTH('a) \<le> unat (sizeBits (untypedList info ! idx))"
    using V idx by (simp add: valid_untypeds_def not_le)
  have cmp: "\<not> (scast R :: 'a word) \<le> BIT (unat (sizeBits (untypedList info ! idx)))"
    using loop_compare [OF L V idx R] nofit by simp
  have le: "unat (start (untyped info)) \<le> unat (end_excl (untyped info))"
    using V by (simp add: valid_untypeds_def word_le_nat_alt)
  have "unat (end_excl (untyped info)) < 2 ^ 31"
    using V by (simp add: valid_untypeds_def)
  moreover have "?m < unat (end_excl (untyped info))"
    using idx le unfolding untyped_count_def by linarith
  ultimately have "Suc ?m < 2 ^ 31" by linarith
  then have nomax: "(of_nat ?m :: c_int) \<noteq> INT_MAX"
    by (rule of_nat_ne_INT_MAX)
  have next_i: "(of_nat ?m :: c_int) + 1 = of_nat (unat (start (untyped info)) + Suc idx)"
    by simp
  show ?thesis
    by (subst get_untyped_loop.simps)
      (simp only: guard inlist shift cmp nomax next_i if_True if_False simp_thms Suc_eq_plus1)
qed

text \<open>The scan from \<open>idx\<close>: up to the first grant that is large enough, or to the end.\<close>

lemma loop_first_fit:
  fixes info :: "'a::len word seL4_BootInfo"
  assumes L: "32 \<le> LENGTH('a)" and V: "valid_untypeds info" and R: "0 \<le> sint R"
    and k: "k < untyped_count info" and fit: "nat (sint R) \<le> grant_size info k"
  shows "idx \<le> k \<Longrightarrow> (\<forall>j<k. idx \<le> j \<longrightarrow> grant_size info j < nat (sint R)) \<Longrightarrow>
         get_untyped_loop info R (of_nat (unat (start (untyped info)) + idx)) idx
         = Some (start (untyped info) + of_nat k, info)"
proof (induction "k - idx" arbitrary: idx)
  case 0
  then have "idx = k" by simp
  then show ?case using loop_hit [OF L V k R fit] by simp
next
  case (Suc d)
  then have lt: "idx < k" by simp
  then have "idx < untyped_count info" using k by simp
  moreover have "grant_size info idx < nat (sint R)" using Suc.prems(2) lt by simp
  ultimately have "get_untyped_loop info R (of_nat (unat (start (untyped info)) + idx)) idx
      = get_untyped_loop info R (of_nat (unat (start (untyped info)) + Suc idx)) (Suc idx)"
    using loop_miss [OF L V _ R] by blast
  moreover have "get_untyped_loop info R (of_nat (unat (start (untyped info)) + Suc idx)) (Suc idx)
      = Some (start (untyped info) + of_nat k, info)"
  proof (rule Suc.hyps(1))
    show "d = k - Suc idx" using Suc.hyps(2) by simp
    show "Suc idx \<le> k" using lt by simp
    show "\<forall>j<k. Suc idx \<le> j \<longrightarrow> grant_size info j < nat (sint R)"
      using Suc.prems(2) by simp
  qed
  ultimately show ?case by simp
qed

lemma loop_no_fit:
  fixes info :: "'a::len word seL4_BootInfo"
  assumes L: "32 \<le> LENGTH('a)" and V: "valid_untypeds info" and R: "0 \<le> sint R"
  shows "idx \<le> untyped_count info \<Longrightarrow>
         (\<forall>j<untyped_count info. idx \<le> j \<longrightarrow> grant_size info j < nat (sint R)) \<Longrightarrow>
         get_untyped_loop info R (of_nat (unat (start (untyped info)) + idx)) idx
         = Some (- 1, info)"
proof (induction "untyped_count info - idx" arbitrary: idx)
  case 0
  then have "idx = untyped_count info" by simp
  then show ?case using loop_exit [OF L V] by simp
next
  case (Suc d)
  then have lt: "idx < untyped_count info" by simp
  moreover have "grant_size info idx < nat (sint R)" using Suc.prems(2) lt by simp
  ultimately have "get_untyped_loop info R (of_nat (unat (start (untyped info)) + idx)) idx
      = get_untyped_loop info R (of_nat (unat (start (untyped info)) + Suc idx)) (Suc idx)"
    using loop_miss [OF L V _ R] by blast
  moreover have "get_untyped_loop info R (of_nat (unat (start (untyped info)) + Suc idx)) (Suc idx)
      = Some (- 1, info)"
  proof (rule Suc.hyps(1))
    show "d = untyped_count info - Suc idx" using Suc.hyps(2) by simp
    show "Suc idx \<le> untyped_count info" using lt by simp
    show "\<forall>j<untyped_count info. Suc idx \<le> j \<longrightarrow> grant_size info j < nat (sint R)"
      using Suc.prems(2) by simp
  qed
  ultimately show ?case by simp
qed

lemma get_untyped_start:
  "get_untyped info R = get_untyped_loop info R (of_nat (unat (start (untyped info)) + 0)) 0"
  by (simp add: get_untyped_def)

text \<open>The loop never writes to the boot info.\<close>

lemma get_untyped_loop_frame:
  "get_untyped_loop info R i idx = Some (c, info') \<Longrightarrow> info' = info"
proof (induction info R i idx rule: get_untyped_loop.induct)
  case (1 info size_bytes i idx)
  from "1.prems" show ?case
    by (subst (asm) get_untyped_loop.simps) (auto split: if_splits intro: "1.IH")
qed

lemma get_untyped_frame: "get_untyped info R = Some (c, info') \<Longrightarrow> info' = info"
  unfolding get_untyped_def by (rule get_untyped_loop_frame)

text \<open>The scenario's boot info is valid, and its two grants have 4096 and 65536 bytes.\<close>

lemma scenario_count: "untyped_count (scenario_info :: 'a::len word seL4_BootInfo) = 2"
  if "32 \<le> LENGTH('a)"
proof -
  have "unat (52 :: 'a word) = 52" "unat (50 :: 'a word) = 50"
    using unat_of_nat_small [OF that, of 52] unat_of_nat_small [OF that, of 50] by simp_all
  then show ?thesis by (simp add: untyped_count_def scenario_info_def)
qed

lemma scenario_valid: "valid_untypeds (scenario_info :: 'a::len word seL4_BootInfo)"
  if "32 \<le> LENGTH('a)"
proof -
  let ?info = "scenario_info :: 'a word seL4_BootInfo"
  have u: "unat (52 :: 'a word) = 52" "unat (50 :: 'a word) = 50"
    using unat_of_nat_small [OF that, of 52] unat_of_nat_small [OF that, of 50] by simp_all
  have region: "start (untyped ?info) = 50" "end_excl (untyped ?info) = 52"
    and list: "untypedList ?info = [\<lparr>sizeBits = 12\<rparr>, \<lparr>sizeBits = 16\<rparr>]"
    by (simp_all add: scenario_info_def)
  have "start (untyped ?info) \<le> end_excl (untyped ?info)"
    unfolding region word_le_nat_alt u by simp
  moreover have "unat (end_excl (untyped ?info)) < 2 ^ 31"
    unfolding region u by simp
  moreover have "untyped_count ?info \<le> length (untypedList ?info)"
    unfolding scenario_count [OF that] list by simp
  moreover have "unat (12 :: seL4_Uint8) < LENGTH('a)" "unat (16 :: seL4_Uint8) < LENGTH('a)"
    using that by simp_all
  then have "\<forall>k<untyped_count ?info. unat (sizeBits (untypedList ?info ! k)) < LENGTH('a)"
    unfolding scenario_count [OF that] list
    by (simp add: less_Suc_eq numeral_2_eq_2 all_conj_distrib)
  ultimately show ?thesis
    unfolding valid_untypeds_def by blast
qed

lemma scenario_sizes:
  "grant_size (scenario_info :: 'a::len word seL4_BootInfo) 0 = 4096"
  "grant_size (scenario_info :: 'a::len word seL4_BootInfo) (Suc 0) = 65536"
  by (simp_all add: grant_size_def scenario_info_def)

section \<open>The alignment test\<close>

text \<open>
  The test \<^verbatim>\<open>thread_2_stack_top % stack_alignment_requirement != 0\<close> on words says
  that the stack top is not a multiple of twice the size of a word.
\<close>

lemma word_mod_eq_0_iff: "x mod w = 0 \<longleftrightarrow> unat w dvd unat x" for x w :: "'a::len word"
proof -
  have "x mod w = 0 \<longleftrightarrow> unat (x mod w) = 0" by (simp add: unat_eq_0)
  also have "\<dots> \<longleftrightarrow> unat x mod unat w = 0" by (simp add: unat_mod)
  also have "\<dots> \<longleftrightarrow> unat w dvd unat x" by (simp add: mod_eq_0_iff_dvd)
  finally show ?thesis .
qed

lemma unat_alignment:
  assumes "LENGTH('a::len) < 2 ^ 31"
  shows "unat (scast (stack_alignment_requirement TYPE('a)) :: 'a word)
         = sizeof_seL4_Word TYPE('a) * 2"
proof -
  let ?m = "sizeof_seL4_Word TYPE('a) * 2"
  have "?m \<le> LENGTH('a)" by (simp add: sizeof_seL4_Word_def)
  then have small: "?m < 2 ^ 31" using assms by linarith
  have "LENGTH('a) < 2 ^ LENGTH('a)" by (rule less_exp)
  with \<open>?m \<le> LENGTH('a)\<close> have "?m < 2 ^ LENGTH('a)" by linarith
  then have "unat (of_nat ?m :: 'a word) = ?m" by (simp only: unat_of_nat mod_less)
  moreover have "(scast (stack_alignment_requirement TYPE('a)) :: 'a word) = of_nat ?m"
    unfolding stack_alignment_requirement_def using small by (rule scast_of_nat_small)
  ultimately show ?thesis by simp
qed

lemma aligned_iff:
  assumes "LENGTH('a::len) < 2 ^ 31"
  shows "(sp :: 'a word) mod scast (stack_alignment_requirement TYPE('a)) = 0
         \<longleftrightarrow> sizeof_seL4_Word TYPE('a) * 2 dvd unat sp"
  by (simp only: word_mod_eq_0_iff unat_alignment [OF assms])

text \<open>The stack is 4096 bytes long, so its top is as aligned to 8 bytes as its base.\<close>

lemma stack_top_multiple_of_8:
  fixes thread_2_stack :: "'a::len word"
  assumes L: "8 \<le> LENGTH('a)" and base: "8 dvd unat thread_2_stack"
  shows "8 dvd unat (thread_2_stack_top thread_2_stack)"
proof -
  have "(2::nat) ^ 3 dvd 2 ^ LENGTH('a)"
    by (rule le_imp_power_dvd) (use L in simp)
  then have p: "(8::nat) dvd 2 ^ LENGTH('a)" by simp
  have "unat (thread_2_stack_top thread_2_stack)
      = (unat thread_2_stack + 4096 mod 2 ^ LENGTH('a)) mod 2 ^ LENGTH('a)"
    by (simp add: thread_2_stack_top_def THREAD_2_STACK_SIZE_def unat_word_ariths unat_of_nat
        take_bit_eq_mod)
  moreover have "(8::nat) dvd 4096 mod 2 ^ LENGTH('a)"
    using p by (simp add: dvd_mod)
  then have "8 dvd unat thread_2_stack + 4096 mod 2 ^ LENGTH('a)"
    using base by (rule dvd_add [rotated])
  then have "8 dvd (unat thread_2_stack + 4096 mod 2 ^ LENGTH('a)) mod 2 ^ LENGTH('a)"
    using p by (simp add: dvd_mod)
  ultimately show ?thesis by simp
qed

section \<open>The shape of a run\<close>

text \<open>
  Whatever the kernel answers, a run of \<open>main\<close> makes a prefix of the same six
  invocations, and its outcome says where it stopped.
\<close>

lemma get_untyped_cases:
  obtains (undefined) "get_untyped info R = None"
  | (returns) u where "get_untyped info R = Some (u, info)"
proof (cases "get_untyped info R")
  case None
  then show ?thesis by (rule undefined)
next
  case (Some p)
  obtain u info' where p: "p = (u, info')" by (cases p)
  with Some get_untyped_frame [of info R u info'] have "get_untyped info R = Some (u, info)"
    by simp
  then show ?thesis by (rule returns)
qed

lemma run_undefined_first:
  fixes info :: "'a::len word seL4_BootInfo"
  assumes "get_untyped info (ucast (BIT (seL4_TCBBits lib) :: 'a word)) = None"
  shows "run lib kern thread_2 thread_2_stack info k0 = (Undefined, [])"
  using assms by (simp add: run_def main_def)

lemma run_undefined_second:
  fixes info :: "'a::len word seL4_BootInfo" and lib
  assumes g1: "get_untyped info (ucast (BIT (seL4_TCBBits lib) :: 'a word)) = Some (u1, info)"
    and g2: "get_untyped info (push_bit (seL4_MinSchedContextBits lib) 1) = None"
  defines "c1 \<equiv> seL4_Untyped_Retype u1 seL4_TCBObject (of_nat (seL4_TCBBits lib))
      (seL4_CapInitThreadCNode lib) (seL4_CapInitThreadCNode lib) 32 (start (empty info)) 1"
  shows "run lib kern thread_2 thread_2_stack info k0 = (Fatal Failed_to_allocate_TCB, [c1])
       \<or> run lib kern thread_2 thread_2_stack info k0 = (Undefined, [c1])"
proof -
  have g2': "get_untyped info (2 ^ seL4_MinSchedContextBits lib) = None"
    using g2 by simp
  show ?thesis
    unfolding run_def main_def recording_def Let_def c1_def
    by (simp add: g1 g2' split: prod.splits)
qed

lemma run_shape:
  fixes info :: "'a::len word seL4_BootInfo" and lib kern thread_2 thread_2_stack k0
  assumes g1: "get_untyped info (ucast (BIT (seL4_TCBBits lib) :: 'a word)) = Some (u1, info)"
    and g2: "get_untyped info (push_bit (seL4_MinSchedContextBits lib) 1) = Some (u2, info)"
  defines "tcb_cap \<equiv> start (empty info)"
    and "sc_cap \<equiv> start (empty info) + 1"
    and "cnode \<equiv> seL4_CapInitThreadCNode lib"
    and "sched_control \<equiv> start (schedcontrol info) + nodeID info"
    and "sp \<equiv> thread_2_stack_top thread_2_stack"
  defines "c1 \<equiv> seL4_Untyped_Retype u1 seL4_TCBObject (of_nat (seL4_TCBBits lib))
      cnode cnode 32 tcb_cap 1"
    and "c2 \<equiv> seL4_Untyped_Retype u2 seL4_SchedContextObject
      (of_nat (seL4_MinSchedContextBits lib)) cnode cnode 32 sc_cap 1"
    and "c3 \<equiv> seL4_SchedControl_Configure sched_control sc_cap (10 * US_IN_MS) (10 * US_IN_MS) 0"
    and "c4 \<equiv> seL4_TCB_Configure tcb_cap seL4_CapNull (seL4_MaxPrio lib, seL4_MaxPrio lib) sc_cap
      cnode (seL4_NilData lib) (seL4_CapInitThreadPD lib) (seL4_NilData lib) 0 0"
    and "c5 \<equiv> seL4_TCB_WriteRegisters tcb_cap False 0 2
      \<lparr>eip = thread_2, esp = sp, eflags = 0, eax = 0, ebx = 0, ecx = 0, edx = 0, esi = 0,
       edi = 0, ebp = 0, tls_base = 0, fs = 0, gs = 0\<rparr>"
    and "c6 \<equiv> seL4_TCB_Resume tcb_cap"
  defines "aligned \<equiv> sp mod scast (stack_alignment_requirement TYPE('a)) = 0"
    and "r \<equiv> run lib kern thread_2 thread_2_stack info k0"
  shows "r = (Fatal Failed_to_allocate_TCB, [c1])
       \<or> r = (Fatal Failed_to_allocate_SC, [c1, c2])
       \<or> (r = (Fatal Failed_to_find_sched_control, [c1, c2]) \<and> sched_control = seL4_CapNull)
       \<or> (r = (Fatal Failed_to_configure_SC, [c1, c2, c3]) \<and> sched_control \<noteq> seL4_CapNull)
       \<or> (r = (Fatal Failed_to_configure_TCB, [c1, c2, c3, c4]) \<and> sched_control \<noteq> seL4_CapNull)
       \<or> (r = (Fatal Stack_top_misaligned, [c1, c2, c3, c4]) \<and> sched_control \<noteq> seL4_CapNull
            \<and> \<not> aligned)
       \<or> (r = (Fatal Failed_to_write_registers, [c1, c2, c3, c4, c5])
            \<and> sched_control \<noteq> seL4_CapNull \<and> aligned)
       \<or> (r = (Fatal Failed_to_start_thread, [c1, c2, c3, c4, c5, c6])
            \<and> sched_control \<noteq> seL4_CapNull \<and> aligned)
       \<or> (r = (Return 0, [c1, c2, c3, c4, c5, c6]) \<and> sched_control \<noteq> seL4_CapNull \<and> aligned)"
proof -
  have g2': "get_untyped info (2 ^ seL4_MinSchedContextBits lib) = Some (u2, info)"
    using g2 by simp
  show ?thesis
    unfolding r_def run_def main_def recording_def Let_def
      c1_def c2_def c3_def c4_def c5_def c6_def aligned_def tcb_cap_def sc_cap_def cnode_def
      sched_control_def sp_def
    by (simp add: g1 g2' split: prod.splits)
qed

text \<open>A first retype that the kernel accepts does not end the run.\<close>

lemma run_first_retype_accepted:
  fixes info :: "'a::len word seL4_BootInfo" and lib kern thread_2 thread_2_stack k
  assumes g1: "get_untyped info (ucast (BIT (seL4_TCBBits lib) :: 'a word)) = Some (u1, info)"
    and ok: "fst (kern (seL4_Untyped_Retype u1 seL4_TCBObject (of_nat (seL4_TCBBits lib))
                   (seL4_CapInitThreadCNode lib) (seL4_CapInitThreadCNode lib) 32
                   (start (empty info)) 1) k) = seL4_NoError"
  shows "fst (run lib kern thread_2 thread_2_stack info k) \<noteq> Fatal Failed_to_allocate_TCB"
  using ok unfolding run_def main_def recording_def Let_def
  by (simp add: g1 split_beta split: option.splits)

text \<open>With a kernel that accepts every invocation only the alignment test decides.\<close>

lemma run_accepted:
  fixes info :: "'a::len word seL4_BootInfo" and lib kern thread_2 thread_2_stack k0
  assumes g1: "get_untyped info (ucast (BIT (seL4_TCBBits lib) :: 'a word)) = Some (u1, info)"
    and g2: "get_untyped info (push_bit (seL4_MinSchedContextBits lib) 1) = Some (u2, info)"
    and ok: "\<forall>call k. fst (kern call k) = seL4_NoError"
    and ctl: "start (schedcontrol info) + nodeID info \<noteq> seL4_CapNull"
  defines "tcb_cap \<equiv> start (empty info)"
    and "sc_cap \<equiv> start (empty info) + 1"
    and "cnode \<equiv> seL4_CapInitThreadCNode lib"
    and "sp \<equiv> thread_2_stack_top thread_2_stack"
  defines "before \<equiv>
     [seL4_Untyped_Retype u1 seL4_TCBObject (of_nat (seL4_TCBBits lib)) cnode cnode 32 tcb_cap 1,
      seL4_Untyped_Retype u2 seL4_SchedContextObject (of_nat (seL4_MinSchedContextBits lib))
        cnode cnode 32 sc_cap 1,
      seL4_SchedControl_Configure (start (schedcontrol info) + nodeID info) sc_cap
        (10 * US_IN_MS) (10 * US_IN_MS) 0,
      seL4_TCB_Configure tcb_cap seL4_CapNull (seL4_MaxPrio lib, seL4_MaxPrio lib) sc_cap
        cnode (seL4_NilData lib) (seL4_CapInitThreadPD lib) (seL4_NilData lib) 0 0]"
    and "after \<equiv>
     [seL4_TCB_WriteRegisters tcb_cap False 0 2
        \<lparr>eip = thread_2, esp = sp, eflags = 0, eax = 0, ebx = 0, ecx = 0, edx = 0, esi = 0,
         edi = 0, ebp = 0, tls_base = 0, fs = 0, gs = 0\<rparr>,
      seL4_TCB_Resume tcb_cap]"
  shows "run lib kern thread_2 thread_2_stack info k0 =
     (if sp mod scast (stack_alignment_requirement TYPE('a)) = 0
      then (Return 0, before @ after) else (Fatal Stack_top_misaligned, before))"
proof -
  have g2': "get_untyped info (2 ^ seL4_MinSchedContextBits lib) = Some (u2, info)"
    using g2 by simp
  show ?thesis
    unfolding run_def main_def recording_def Let_def before_def after_def tcb_cap_def
      sc_cap_def cnode_def sp_def
    using ctl ok by (simp add: g1 g2' split_beta)
qed

lemma write_two_registers:
  "write_registers 2 regs tcb = tcb\<lparr>eip := eip regs, esp := esp regs\<rparr>"
  by (simp add: write_registers_def register_list_def of_register_list_def numeral_2_eq_2)

text \<open>
  The end of the free slot range is never read: the search does not look at it, and
  neither does the rest of \<open>main\<close>.
\<close>

lemma get_untyped_loop_empty:
  fixes info :: "'a::len word seL4_BootInfo"
  shows "get_untyped_loop (info\<lparr>empty := e\<rparr>) R i idx
   = map_option (\<lambda>(u, i'). (u, i'\<lparr>empty := e\<rparr>)) (get_untyped_loop info R i idx)"
proof (induction info R i idx rule: get_untyped_loop.induct)
  case (1 info size_bytes i idx)
  let ?continue = "(scast i :: 'a word) < end_excl (untyped info)
      \<and> \<not> (length (untypedList info) \<le> idx
             \<or> LENGTH('a) \<le> unat (sizeBits (untypedList info ! idx)))
      \<and> \<not> (scast size_bytes :: 'a word) \<le> BIT (unat (sizeBits (untypedList info ! idx)))
      \<and> i \<noteq> INT_MAX"
  show ?case
  proof (cases ?continue)
    case True
    then have IH: "get_untyped_loop (info\<lparr>empty := e\<rparr>) size_bytes (i + 1) (idx + 1)
        = map_option (\<lambda>(u, i'). (u, i'\<lparr>empty := e\<rparr>))
            (get_untyped_loop info size_bytes (i + 1) (idx + 1))"
      using "1.IH" by blast
    show ?thesis
      by (subst get_untyped_loop.simps, subst (2) get_untyped_loop.simps)
        (use True IH in simp)
  next
    case False
    then show ?thesis
      by (subst get_untyped_loop.simps, subst (2) get_untyped_loop.simps) auto
  qed
qed

lemma get_untyped_empty:
  "get_untyped (info\<lparr>empty := e\<rparr>) R
   = map_option (\<lambda>(u, i'). (u, i'\<lparr>empty := e\<rparr>)) (get_untyped info R)"
  by (simp add: get_untyped_def get_untyped_loop_empty)

lemma run_ignores_end:
  fixes info :: "'a::len word seL4_BootInfo" and lib kern thread_2 thread_2_stack k
  shows "run lib kern thread_2 thread_2_stack
           (info\<lparr>empty := \<lparr>start = start (empty info), end_excl = e\<rparr>\<rparr>) k
         = run lib kern thread_2 thread_2_stack info k"
proof -
  let ?info' = "info\<lparr>empty := \<lparr>start = start (empty info), end_excl = e\<rparr>\<rparr>"
  have search: "get_untyped ?info' R = map_option (\<lambda>(u, i'). (u, i'\<lparr>empty := \<lparr>start = start (empty info), end_excl = e\<rparr>\<rparr>)) (get_untyped info R)" for R
    by (rule get_untyped_empty)
  consider (undefined) "get_untyped info (ucast (BIT (seL4_TCBBits lib) :: 'a word)) = None"
    | (returns) u1 where
      "get_untyped info (ucast (BIT (seL4_TCBBits lib) :: 'a word)) = Some (u1, info)"
    by (rule get_untyped_cases)
  then show ?thesis
  proof cases
    case undefined
    then show ?thesis
      by (simp add: run_def main_def search)
  next
    case g1: (returns u1)
    have g1': "get_untyped ?info' (ucast (BIT (seL4_TCBBits lib) :: 'a word)) = Some (u1, ?info')"
      by (simp add: search g1)
    consider (undefined) "get_untyped info (2 ^ seL4_MinSchedContextBits lib) = None"
      | (returns) u2 where
        "get_untyped info (2 ^ seL4_MinSchedContextBits lib) = Some (u2, info)"
      by (rule get_untyped_cases)
    then show ?thesis
    proof cases
      case undefined
      then have "get_untyped ?info' (2 ^ seL4_MinSchedContextBits lib) = None"
        by (simp add: search)
      with undefined show ?thesis
        unfolding run_def main_def Let_def
        by (simp add: g1 g1' split: prod.splits)
    next
      case g2: (returns u2)
      then have "get_untyped ?info' (2 ^ seL4_MinSchedContextBits lib) = Some (u2, ?info')"
        by (simp add: search)
      with g2 show ?thesis
        unfolding run_def main_def Let_def
        by (simp add: g1 g1' split: prod.splits)
    qed
  qed
qed

section \<open>The order of the invocations\<close>

text \<open>
  \<open>main\<close> has no state machine of its own for the new thread. The order of its
  statements does the work: a run that resumes the thread has made exactly six
  invocations, the resume is the last of them and the only one, and the configuration
  of the thread and the register write precede it. The scheduling policy is a constant
  of the program: the budget and the period that \<open>main\<close> passes are both ten
  milliseconds, with no extra refills. What the kernel answers to a resume or to a
  policy is decided in the kernel.
\<close>

lemma resume_comes_last:
  fixes info :: "'a::len word seL4_BootInfo" and lib kern thread_2 thread_2_stack k
  defines "tcb_cap \<equiv> start (empty info)"
  assumes call: "seL4_TCB_Resume t \<in> set (snd (run lib kern thread_2 thread_2_stack info k))"
  shows "t = tcb_cap \<and>
    (\<exists>retype_tcb retype_sc bind.
       snd (run lib kern thread_2 thread_2_stack info k) =
         [retype_tcb, retype_sc, bind,
          seL4_TCB_Configure tcb_cap seL4_CapNull (seL4_MaxPrio lib, seL4_MaxPrio lib)
            (tcb_cap + 1) (seL4_CapInitThreadCNode lib) (seL4_NilData lib)
            (seL4_CapInitThreadPD lib) (seL4_NilData lib) 0 0,
          seL4_TCB_WriteRegisters tcb_cap False 0 2
            \<lparr>eip = thread_2, esp = thread_2_stack_top thread_2_stack, eflags = 0, eax = 0,
             ebx = 0, ecx = 0, edx = 0, esi = 0, edi = 0, ebp = 0, tls_base = 0, fs = 0,
             gs = 0\<rparr>,
          seL4_TCB_Resume tcb_cap])"
proof -
  consider (undefined) "get_untyped info (ucast (BIT (seL4_TCBBits lib) :: 'a word)) = None"
    | (returns) u1 where
      "get_untyped info (ucast (BIT (seL4_TCBBits lib) :: 'a word)) = Some (u1, info)"
    by (rule get_untyped_cases)
  then show ?thesis
  proof cases
    case undefined
    then show ?thesis
      using call by (simp add: run_undefined_first)
  next
    case g1: (returns u1)
    consider (undefined) "get_untyped info (push_bit (seL4_MinSchedContextBits lib) 1) = None"
      | (returns) u2 where
        "get_untyped info (push_bit (seL4_MinSchedContextBits lib) 1) = Some (u2, info)"
      by (rule get_untyped_cases)
    then show ?thesis
    proof cases
      case undefined
      from run_undefined_second [OF g1 undefined, of kern thread_2 thread_2_stack k] call
      show ?thesis by auto
    next
      case g2: (returns u2)
      from run_shape [OF g1 g2, of kern thread_2 thread_2_stack k] call
      show ?thesis unfolding tcb_cap_def by auto
    qed
  qed
qed

lemma policy_passed:
  fixes info :: "'a::len word seL4_BootInfo" and lib kern thread_2 thread_2_stack k
  assumes call: "seL4_SchedControl_Configure ctl sc budget period refills
                   \<in> set (snd (run lib kern thread_2 thread_2_stack info k))"
  shows "budget = 10 * US_IN_MS \<and> period = 10 * US_IN_MS \<and> refills = 0
       \<and> ctl = start (schedcontrol info) + nodeID info \<and> ctl \<noteq> seL4_CapNull
       \<and> sc = start (empty info) + 1"
proof -
  consider (undefined) "get_untyped info (ucast (BIT (seL4_TCBBits lib) :: 'a word)) = None"
    | (returns) u1 where
      "get_untyped info (ucast (BIT (seL4_TCBBits lib) :: 'a word)) = Some (u1, info)"
    by (rule get_untyped_cases)
  then show ?thesis
  proof cases
    case undefined
    then show ?thesis
      using call by (simp add: run_undefined_first)
  next
    case g1: (returns u1)
    consider (undefined) "get_untyped info (push_bit (seL4_MinSchedContextBits lib) 1) = None"
      | (returns) u2 where
        "get_untyped info (push_bit (seL4_MinSchedContextBits lib) 1) = Some (u2, info)"
      by (rule get_untyped_cases)
    then show ?thesis
    proof cases
      case undefined
      from run_undefined_second [OF g1 undefined, of kern thread_2 thread_2_stack k] call
      show ?thesis by auto
    next
      case g2: (returns u2)
      from run_shape [OF g1 g2, of kern thread_2 thread_2_stack k] call
      show ?thesis by auto
    qed
  qed
qed

section \<open>The claims about the grant search\<close>

text \<open>
  Claim C3. For every size requirement \<open>R\<close> and every grant sequence, \<^verbatim>\<open>get_untyped\<close>
  returns the first grant in ascending identifier order whose size class
  (\<open>2 ^ sizeBits\<close> bytes) is greater than or equal to \<open>R\<close>, and returns the failure value
  \<open>-1\<close> when no grant of the sequence qualifies. The grant sequence is that of a valid
  boot info on a platform whose word has at least 32 bits, and the size requirement is
  not negative; the capability of the \<open>k\<close>-th grant is \<open>untyped.start + k\<close>.
\<close>

theorem get_untyped_first_fit:
  fixes info :: "'a::len word seL4_BootInfo"
  assumes L: "32 \<le> LENGTH('a)" and V: "valid_untypeds info" and R: "0 \<le> sint R"
  shows "(\<forall>k<untyped_count info.
            nat (sint R) \<le> grant_size info k \<and> (\<forall>j<k. grant_size info j < nat (sint R))
            \<longrightarrow> get_untyped info R = Some (start (untyped info) + of_nat k, info))
       \<and> ((\<forall>k<untyped_count info. grant_size info k < nat (sint R))
            \<longrightarrow> get_untyped info R = Some (- 1, info))"
proof (intro conjI allI impI)
  fix k
  assume "k < untyped_count info"
    and "nat (sint R) \<le> grant_size info k \<and> (\<forall>j<k. grant_size info j < nat (sint R))"
  then show "get_untyped info R = Some (start (untyped info) + of_nat k, info)"
    unfolding get_untyped_start using loop_first_fit [OF L V R, of k 0] by simp
next
  assume "\<forall>k<untyped_count info. grant_size info k < nat (sint R)"
  then show "get_untyped info R = Some (- 1, info)"
    unfolding get_untyped_start using loop_no_fit [OF L V R, of 0] by simp
qed

text \<open>
  In the scenario a request of 65536 bytes passes over grant 0 (4096 bytes) and returns
  capability 51, and a request of 65537 bytes returns \<open>-1\<close>.
\<close>

theorem get_untyped_first_fit_witness:
  "get_untyped (scenario_info :: 32 word seL4_BootInfo) 65536 = Some (51, scenario_info)
   \<and> get_untyped (scenario_info :: 32 word seL4_BootInfo) 65537 = Some (- 1, scenario_info)"
proof -
  have L: "32 \<le> LENGTH(32)" by simp
  note V = scenario_valid [OF L]
  note n = scenario_count [OF L]
  have hit: "get_untyped (scenario_info :: 32 word seL4_BootInfo) 65536
      = Some (start (untyped scenario_info) + of_nat 1, scenario_info)"
  proof -
    have R: "0 \<le> sint (65536 :: c_int)" by simp
    have "1 < untyped_count (scenario_info :: 32 word seL4_BootInfo)" using n by simp
    moreover have "nat (sint (65536 :: c_int)) \<le> grant_size (scenario_info :: 32 word seL4_BootInfo) 1
        \<and> (\<forall>j<1. grant_size (scenario_info :: 32 word seL4_BootInfo) j < nat (sint (65536 :: c_int)))"
      by (simp add: scenario_sizes)
    ultimately show ?thesis
      using get_untyped_first_fit [OF L V R] by blast
  qed
  have miss: "get_untyped (scenario_info :: 32 word seL4_BootInfo) 65537 = Some (- 1, scenario_info)"
  proof -
    have R: "0 \<le> sint (65537 :: c_int)" by simp
    have "\<forall>k<untyped_count (scenario_info :: 32 word seL4_BootInfo).
        grant_size (scenario_info :: 32 word seL4_BootInfo) k < nat (sint (65537 :: c_int))"
      using n by (auto simp: less_Suc_eq numeral_2_eq_2 scenario_sizes)
    then show ?thesis
      using get_untyped_first_fit [OF L V R] by blast
  qed
  from hit miss show ?thesis by (simp add: scenario_info_def)
qed

text \<open>
  Claim C9. \<^verbatim>\<open>get_untyped\<close> is a pure read over the boot info: whenever it returns, the
  boot info it leaves (the untyped list and the slot regions with it) is the boot info
  it was given, and a second call with the same arguments returns the same capability.
\<close>

theorem get_untyped_pure:
  assumes "get_untyped info R = Some (c, info')"
  shows "info' = info \<and> get_untyped info' R = Some (c, info')"
  using assms get_untyped_frame [OF assms] by simp

theorem get_untyped_pure_witness:
  "get_untyped (scenario_info :: 32 word seL4_BootInfo) 4096 = Some (50, scenario_info)
   \<and> untypedList (scenario_info :: 32 word seL4_BootInfo) = [\<lparr>sizeBits = 12\<rparr>, \<lparr>sizeBits = 16\<rparr>]"
proof -
  have first: "get_untyped (scenario_info :: 32 word seL4_BootInfo) 4096
      = Some (50, scenario_info)"
    by code_simp
  from get_untyped_pure [OF first] show ?thesis by (simp add: scenario_info_def)
qed

section \<open>The claims about main\<close>

text \<open>
  Claim C7. Loading the registers rejects every stack pointer that is not a multiple of
  twice the size of a machine word, and accepts every stack pointer that is, without
  truncating it. On a 32 bit or 64 bit platform and for every kernel: with a stack top
  that is not such a multiple the run ends in the fatal error of the alignment test,
  after four invocations, unless an earlier step has already ended it, and it never
  writes registers or resumes the thread; with a stack top that is such a multiple the
  run never ends in that error, and the stack pointer it writes is the stack top itself.
\<close>

theorem stack_alignment_check:
  fixes info :: "'a::len word seL4_BootInfo" and lib kern thread_2 thread_2_stack k
  defines "sp \<equiv> thread_2_stack_top thread_2_stack"
    and "r \<equiv> run lib kern thread_2 thread_2_stack info k"
  assumes len: "LENGTH('a) = 32 \<or> LENGTH('a) = 64"
  shows "(\<not> sizeof_seL4_Word TYPE('a) * 2 dvd unat sp \<longrightarrow>
            ((fst r = Fatal Stack_top_misaligned \<and> length (snd r) = 4)
             \<or> fst r = Undefined
             \<or> fst r = Fatal Failed_to_allocate_TCB
             \<or> fst r = Fatal Failed_to_allocate_SC
             \<or> fst r = Fatal Failed_to_find_sched_control
             \<or> fst r = Fatal Failed_to_configure_SC
             \<or> fst r = Fatal Failed_to_configure_TCB)
            \<and> (\<forall>t rs f n regs. seL4_TCB_WriteRegisters t rs f n regs \<notin> set (snd r))
            \<and> (\<forall>t. seL4_TCB_Resume t \<notin> set (snd r)))
       \<and> (sizeof_seL4_Word TYPE('a) * 2 dvd unat sp \<longrightarrow>
            fst r \<noteq> Fatal Stack_top_misaligned
            \<and> (\<forall>t rs f n regs. seL4_TCB_WriteRegisters t rs f n regs \<in> set (snd r)
                  \<longrightarrow> esp regs = sp))"
proof -
  have "LENGTH('a) < 2 ^ 31" using len by auto
  note al = aligned_iff [OF this, of sp]
  consider (undefined) "get_untyped info (ucast (BIT (seL4_TCBBits lib) :: 'a word)) = None"
    | (returns) u1 where
      "get_untyped info (ucast (BIT (seL4_TCBBits lib) :: 'a word)) = Some (u1, info)"
    by (rule get_untyped_cases)
  then show ?thesis
  proof cases
    case undefined
    then show ?thesis
      unfolding r_def by (simp add: run_undefined_first)
  next
    case g1: (returns u1)
    consider (undefined) "get_untyped info (push_bit (seL4_MinSchedContextBits lib) 1) = None"
      | (returns) u2 where
        "get_untyped info (push_bit (seL4_MinSchedContextBits lib) 1) = Some (u2, info)"
      by (rule get_untyped_cases)
    then show ?thesis
    proof cases
      case undefined
      from run_undefined_second [OF g1 undefined, of kern thread_2 thread_2_stack k]
      show ?thesis unfolding r_def by auto
    next
      case g2: (returns u2)
      from run_shape [OF g1 g2, of kern thread_2 thread_2_stack k]
      show ?thesis unfolding r_def sp_def using al [unfolded sp_def] by auto
    qed
  qed
qed

text \<open>
  In the scenario on a 32 bit platform a stack at \<open>0x10004\<close> is rejected by the
  alignment test, and a stack at \<open>0x10008\<close> is accepted and written as it is.
\<close>

theorem stack_alignment_check_witness:
  "\<not> sizeof_seL4_Word TYPE(32) * 2 dvd unat (thread_2_stack_top (0x10004 :: 32 word))
   \<and> run scenario_lib accepting 0x8000 0x10004 (scenario_info :: 32 word seL4_BootInfo) () =
      (Fatal Stack_top_misaligned,
       [seL4_Untyped_Retype 50 seL4_TCBObject 12 2 2 32 100 1,
        seL4_Untyped_Retype 51 seL4_SchedContextObject 16 2 2 32 101 1,
        seL4_SchedControl_Configure 40 101 10000 10000 0,
        seL4_TCB_Configure 100 0 (255, 255) 101 2 0 3 0 0 0])
   \<and> sizeof_seL4_Word TYPE(32) * 2 dvd unat (thread_2_stack_top (0x10008 :: 32 word))
   \<and> fst (run scenario_lib accepting 0x8000 0x10008 (scenario_info :: 32 word seL4_BootInfo) ())
       \<noteq> Fatal Stack_top_misaligned
   \<and> seL4_TCB_WriteRegisters 100 False 0 2
         \<lparr>eip = 0x8000, esp = thread_2_stack_top 0x10008, eflags = 0, eax = 0, ebx = 0,
          ecx = 0, edx = 0, esi = 0, edi = 0, ebp = 0, tls_base = 0, fs = 0, gs = 0\<rparr>
       \<in> set (snd (run scenario_lib accepting 0x8000 0x10008
                      (scenario_info :: 32 word seL4_BootInfo) ()))"
proof -
  have len: "LENGTH(32) = 32 \<or> LENGTH(32) = 64" by simp
  have bad: "\<not> sizeof_seL4_Word TYPE(32) * 2 dvd unat (thread_2_stack_top (0x10004 :: 32 word))"
    by (simp add: sizeof_seL4_Word_def thread_2_stack_top_def THREAD_2_STACK_SIZE_def)
  have good: "sizeof_seL4_Word TYPE(32) * 2 dvd unat (thread_2_stack_top (0x10008 :: 32 word))"
    by (simp add: sizeof_seL4_Word_def thread_2_stack_top_def THREAD_2_STACK_SIZE_def)
  have r1: "run scenario_lib accepting 0x8000 0x10004 (scenario_info :: 32 word seL4_BootInfo) () =
      (Fatal Stack_top_misaligned,
       [seL4_Untyped_Retype 50 seL4_TCBObject 12 2 2 32 100 1,
        seL4_Untyped_Retype 51 seL4_SchedContextObject 16 2 2 32 101 1,
        seL4_SchedControl_Configure 40 101 10000 10000 0,
        seL4_TCB_Configure 100 0 (255, 255) 101 2 0 3 0 0 0])"
    by code_simp
  have r2: "seL4_TCB_WriteRegisters 100 False 0 2
         \<lparr>eip = 0x8000, esp = thread_2_stack_top 0x10008, eflags = 0, eax = 0, ebx = 0,
          ecx = 0, edx = 0, esi = 0, edi = 0, ebp = 0, tls_base = 0, fs = 0, gs = 0\<rparr>
       \<in> set (snd (run scenario_lib accepting 0x8000 0x10008
                      (scenario_info :: 32 word seL4_BootInfo) ()))"
    by code_simp
  from stack_alignment_check [OF len, of "0x10008" scenario_lib accepting "0x8000" scenario_info "()"]
    good
  have "fst (run scenario_lib accepting 0x8000 0x10008 (scenario_info :: 32 word seL4_BootInfo) ())
       \<noteq> Fatal Stack_top_misaligned"
    by blast
  with bad good r1 r2 show ?thesis by blast
qed

text \<open>
  Claim C4. The end-to-end bootstrap with grants of 4096 and 65536 bytes (capabilities
  \<open>g\<close> and \<open>g + 1\<close>) and the free slots 100 to 109, on a 32 bit or 64 bit platform:
  the thread object request of 4096 bytes takes grant 0 into slot 100, the scheduling
  context request of 65536 bytes takes grant 1 into slot 101, the policy of 10 ms period
  and 10 ms budget is bound on node 0, and with a stack top that is a multiple of 16 and
  a kernel that accepts the invocations the thread is configured, its registers are
  loaded and it is resumed: \<open>main\<close> returns 0 after exactly these six invocations.
\<close>

theorem bootstrap_scenario:
  fixes info :: "'a::len word seL4_BootInfo" and lib kern thread_2 thread_2_stack k g
  defines "cnode \<equiv> seL4_CapInitThreadCNode lib"
    and "sp \<equiv> thread_2_stack_top thread_2_stack"
  assumes len: "LENGTH('a) = 32 \<or> LENGTH('a) = 64"
    and region: "untyped info = \<lparr>start = g, end_excl = g + 2\<rparr>" "unat g + 2 < 2 ^ 31"
    and grants: "untypedList info = [\<lparr>sizeBits = 12\<rparr>, \<lparr>sizeBits = 16\<rparr>]"
    and slots: "empty info = \<lparr>start = 100, end_excl = 110\<rparr>"
    and node: "nodeID info = 0" "start (schedcontrol info) \<noteq> seL4_CapNull"
    and sizes: "seL4_TCBBits lib = 12" "seL4_MinSchedContextBits lib = 16"
    and accepts: "\<forall>call k. fst (kern call k) = seL4_NoError"
    and aligned: "16 dvd unat sp"
  shows "run lib kern thread_2 thread_2_stack info k =
     (Return 0,
      [seL4_Untyped_Retype g seL4_TCBObject 12 cnode cnode 32 100 1,
       seL4_Untyped_Retype (g + 1) seL4_SchedContextObject 16 cnode cnode 32 101 1,
       seL4_SchedControl_Configure (start (schedcontrol info)) 101
         (10 * US_IN_MS) (10 * US_IN_MS) 0,
       seL4_TCB_Configure 100 seL4_CapNull (seL4_MaxPrio lib, seL4_MaxPrio lib) 101
         cnode (seL4_NilData lib) (seL4_CapInitThreadPD lib) (seL4_NilData lib) 0 0,
       seL4_TCB_WriteRegisters 100 False 0 2
         \<lparr>eip = thread_2, esp = sp, eflags = 0, eax = 0, ebx = 0, ecx = 0, edx = 0,
          esi = 0, edi = 0, ebp = 0, tls_base = 0, fs = 0, gs = 0\<rparr>,
       seL4_TCB_Resume 100])"
proof -
  have L: "32 \<le> LENGTH('a)" using len by auto
  have "(2::nat) ^ 31 < 2 ^ LENGTH('a)"
    by (rule power_strict_increasing) (use L in simp_all)
  with region(2) have "unat g + unat (2 :: 'a word) < 2 ^ LENGTH('a)"
    using unat_of_nat_small [OF L, of 2] by simp
  then have "unat (g + 2) = unat g + unat (2 :: 'a word)" by (simp only: unat_add_lem)
  then have ug: "unat (g + 2) = unat g + 2"
    using unat_of_nat_small [OF L, of 2] by simp
  have count: "untyped_count info = 2"
    by (simp add: untyped_count_def region(1) ug)
  have "unat (12 :: seL4_Uint8) < LENGTH('a)" "unat (16 :: seL4_Uint8) < LENGTH('a)"
    using L by simp_all
  then have "\<forall>k<2. unat (sizeBits ([\<lparr>sizeBits = 12\<rparr>, \<lparr>sizeBits = 16\<rparr>] ! k)) < LENGTH('a)"
    by (simp add: less_Suc_eq numeral_2_eq_2 all_conj_distrib)
  moreover have "g \<le> g + 2" by (simp add: word_le_nat_alt ug)
  moreover have "unat (g + 2) < 2 ^ 31" unfolding ug by (rule region(2))
  ultimately have V: "valid_untypeds info"
    unfolding valid_untypeds_def count by (simp add: region(1) grants)
  have sz: "grant_size info 0 = 4096" "grant_size info (Suc 0) = 65536"
    by (simp_all add: grant_size_def grants)
  have g1: "get_untyped info (ucast (BIT (seL4_TCBBits lib) :: 'a word)) = Some (g, info)"
  proof -
    have "get_untyped_loop info (2 ^ 12) (of_nat (unat (start (untyped info)) + 0)) 0
        = Some (start (untyped info) + of_nat 0, info)"
      by (rule loop_first_fit [OF L V]) (simp_all add: ucast_BIT [OF L] count sz)
    then show ?thesis
      by (simp add: get_untyped_start sizes ucast_BIT(1) [OF L] region(1))
  qed
  have g2: "get_untyped info (push_bit (seL4_MinSchedContextBits lib) 1) = Some (g + 1, info)"
  proof -
    have "get_untyped_loop info (2 ^ 16) (of_nat (unat (start (untyped info)) + 0)) 0
        = Some (start (untyped info) + of_nat 1, info)"
      by (rule loop_first_fit [OF L V]) (simp_all add: ucast_BIT [OF L] count sz)
    then show ?thesis
      by (simp add: get_untyped_start sizes region(1))
  qed
  have "LENGTH('a) < 2 ^ 31" using len by auto
  moreover have "sizeof_seL4_Word TYPE('a) * 2 dvd 16"
    using len by (auto simp: sizeof_seL4_Word_def)
  then have "sizeof_seL4_Word TYPE('a) * 2 dvd unat sp"
    using aligned by (rule dvd_trans)
  ultimately have al: "sp mod scast (stack_alignment_requirement TYPE('a)) = 0"
    by (simp only: aligned_iff)
  have ctl: "start (schedcontrol info) + nodeID info \<noteq> seL4_CapNull"
    using node by simp
  show ?thesis
    using run_accepted [OF g1 g2 accepts ctl, of thread_2 thread_2_stack k] al
    by (simp add: sp_def cnode_def slots sizes node)
qed

text \<open>The scenario itself, on a 32 bit platform with the stack at \<open>0x10000\<close>.\<close>

theorem bootstrap_scenario_witness:
  "16 dvd unat (thread_2_stack_top (0x10000 :: 32 word))
   \<and> run scenario_lib accepting 0x8000 0x10000 (scenario_info :: 32 word seL4_BootInfo) () =
     (Return 0,
      [seL4_Untyped_Retype 50 seL4_TCBObject 12 2 2 32 100 1,
       seL4_Untyped_Retype 51 seL4_SchedContextObject 16 2 2 32 101 1,
       seL4_SchedControl_Configure 40 101 10000 10000 0,
       seL4_TCB_Configure 100 0 (255, 255) 101 2 0 3 0 0 0,
       seL4_TCB_WriteRegisters 100 False 0 2
         \<lparr>eip = 0x8000, esp = 0x11000, eflags = 0, eax = 0, ebx = 0, ecx = 0, edx = 0,
          esi = 0, edi = 0, ebp = 0, tls_base = 0, fs = 0, gs = 0\<rparr>,
       seL4_TCB_Resume 100])"
proof -
  have sp: "thread_2_stack_top (0x10000 :: 32 word) = 0x11000"
    by (simp add: thread_2_stack_top_def THREAD_2_STACK_SIZE_def)
  have al: "16 dvd unat (thread_2_stack_top (0x10000 :: 32 word))"
    unfolding sp by simp
  have "run scenario_lib accepting 0x8000 0x10000 (scenario_info :: 32 word seL4_BootInfo) () =
     (Return 0,
      [seL4_Untyped_Retype 50 seL4_TCBObject 12 (seL4_CapInitThreadCNode scenario_lib)
         (seL4_CapInitThreadCNode scenario_lib) 32 100 1,
       seL4_Untyped_Retype (50 + 1) seL4_SchedContextObject 16
         (seL4_CapInitThreadCNode scenario_lib) (seL4_CapInitThreadCNode scenario_lib) 32 101 1,
       seL4_SchedControl_Configure (start (schedcontrol scenario_info)) 101
         (10 * US_IN_MS) (10 * US_IN_MS) 0,
       seL4_TCB_Configure 100 seL4_CapNull
         (seL4_MaxPrio scenario_lib, seL4_MaxPrio scenario_lib) 101
         (seL4_CapInitThreadCNode scenario_lib) (seL4_NilData scenario_lib)
         (seL4_CapInitThreadPD scenario_lib) (seL4_NilData scenario_lib) 0 0,
       seL4_TCB_WriteRegisters 100 False 0 2
         \<lparr>eip = 0x8000, esp = thread_2_stack_top 0x10000, eflags = 0, eax = 0, ebx = 0,
          ecx = 0, edx = 0, esi = 0, edi = 0, ebp = 0, tls_base = 0, fs = 0, gs = 0\<rparr>,
       seL4_TCB_Resume 100])"
  proof (rule bootstrap_scenario)
    show "LENGTH(32) = 32 \<or> LENGTH(32) = 64" by simp
    show "untyped (scenario_info :: 32 word seL4_BootInfo) = \<lparr>start = 50, end_excl = 50 + 2\<rparr>"
      by (simp add: scenario_info_def)
    show "unat (50 :: 32 word) + 2 < 2 ^ 31" by simp
    show "untypedList (scenario_info :: 32 word seL4_BootInfo) = [\<lparr>sizeBits = 12\<rparr>, \<lparr>sizeBits = 16\<rparr>]"
      by (simp add: scenario_info_def)
    show "empty (scenario_info :: 32 word seL4_BootInfo) = \<lparr>start = 100, end_excl = 110\<rparr>"
      by (simp add: scenario_info_def)
    show "nodeID (scenario_info :: 32 word seL4_BootInfo) = 0"
      by (simp add: scenario_info_def)
    show "start (schedcontrol (scenario_info :: 32 word seL4_BootInfo)) \<noteq> seL4_CapNull"
      by (simp add: scenario_info_def seL4_CapNull_def)
    show "seL4_TCBBits (scenario_lib :: 32 word libsel4) = 12"
      "seL4_MinSchedContextBits (scenario_lib :: 32 word libsel4) = 16"
      by (simp_all add: scenario_lib_def)
    show "\<forall>call k. fst (accepting call k) = seL4_NoError"
      by (simp add: accepting_def)
    show "16 dvd unat (thread_2_stack_top (0x10000 :: 32 word))" by (rule al)
  qed
  then show ?thesis
    using al by (simp add: sp scenario_lib_def scenario_info_def US_IN_MS_def seL4_CapNull_def)
qed

text \<open>
  Claim C1, as the code has it. A grant that a construct step consumes is not retired:
  \<^verbatim>\<open>get_untyped\<close> leaves the boot info as it is and \<open>main\<close> passes the same boot info
  to every search, so the untyped capability of every retype that \<open>main\<close> invokes, the
  second as well as the first and whatever the kernel answered before, is the result of
  \<^verbatim>\<open>get_untyped\<close> on the whole grant sequence; a later search returns a consumed grant
  again whenever it is the first grant that is large enough for the later request.
\<close>

theorem retype_takes_search_result:
  fixes info :: "'a::len word seL4_BootInfo" and lib kern thread_2 thread_2_stack k
  assumes call: "seL4_Untyped_Retype u ty bits root ni nd off n
                   \<in> set (snd (run lib kern thread_2 thread_2_stack info k))"
  shows "(ty = seL4_TCBObject \<longrightarrow>
            get_untyped info (ucast (BIT (seL4_TCBBits lib) :: 'a word)) = Some (u, info))
       \<and> (ty = seL4_SchedContextObject \<longrightarrow>
            get_untyped info (push_bit (seL4_MinSchedContextBits lib) 1) = Some (u, info))"
proof -
  consider (undefined) "get_untyped info (ucast (BIT (seL4_TCBBits lib) :: 'a word)) = None"
    | (returns) u1 where
      "get_untyped info (ucast (BIT (seL4_TCBBits lib) :: 'a word)) = Some (u1, info)"
    by (rule get_untyped_cases)
  then show ?thesis
  proof cases
    case undefined
    then show ?thesis
      using call by (simp add: run_undefined_first)
  next
    case g1: (returns u1)
    consider (undefined) "get_untyped info (push_bit (seL4_MinSchedContextBits lib) 1) = None"
      | (returns) u2 where
        "get_untyped info (push_bit (seL4_MinSchedContextBits lib) 1) = Some (u2, info)"
      by (rule get_untyped_cases)
    then show ?thesis
    proof cases
      case undefined
      from run_undefined_second [OF g1 undefined, of kern thread_2 thread_2_stack k] call g1
      show ?thesis by auto
    next
      case g2: (returns u2)
      from run_shape [OF g1 g2, of kern thread_2 thread_2_stack k] call g1 g2
      show ?thesis by auto
    qed
  qed
qed

text \<open>
  With the two grants of the scenario in the other order the search for the scheduling
  context returns capability 50, as the theorem says of the retype that was invoked
  for it.
\<close>

theorem retype_takes_search_result_witness:
  "get_untyped (scenario_info\<lparr>untypedList := [\<lparr>sizeBits = 16\<rparr>, \<lparr>sizeBits = 12\<rparr>]\<rparr>
       :: 32 word seL4_BootInfo) (push_bit (seL4_MinSchedContextBits (scenario_lib :: 32 word libsel4)) 1)
   = Some (50, scenario_info\<lparr>untypedList := [\<lparr>sizeBits = 16\<rparr>, \<lparr>sizeBits = 12\<rparr>]\<rparr>)"
proof -
  have "seL4_Untyped_Retype 50 seL4_SchedContextObject 16 2 2 32 101 1
      \<in> set (snd (run scenario_lib accepting 0x8000 0x10000
           (scenario_info\<lparr>untypedList := [\<lparr>sizeBits = 16\<rparr>, \<lparr>sizeBits = 12\<rparr>]\<rparr>
             :: 32 word seL4_BootInfo) ()))"
    by code_simp
  from retype_takes_search_result [OF this] show ?thesis by simp
qed

text \<open>
  The claim as stated fails on that boot info: grant 50 (65536 bytes) is consumed for the
  thread object and then returned again and consumed for the scheduling context, in a
  bootstrap that succeeds.
\<close>

theorem grant_reused_counterexample:
  "run scenario_lib accepting 0x8000 0x10000
     (scenario_info\<lparr>untypedList := [\<lparr>sizeBits = 16\<rparr>, \<lparr>sizeBits = 12\<rparr>]\<rparr>
        :: 32 word seL4_BootInfo) () =
     (Return 0,
      [seL4_Untyped_Retype 50 seL4_TCBObject 12 2 2 32 100 1,
       seL4_Untyped_Retype 50 seL4_SchedContextObject 16 2 2 32 101 1,
       seL4_SchedControl_Configure 40 101 10000 10000 0,
       seL4_TCB_Configure 100 0 (255, 255) 101 2 0 3 0 0 0,
       seL4_TCB_WriteRegisters 100 False 0 2
         \<lparr>eip = 0x8000, esp = 0x11000, eflags = 0, eax = 0, ebx = 0, ecx = 0, edx = 0,
          esi = 0, edi = 0, ebp = 0, tls_base = 0, fs = 0, gs = 0\<rparr>,
       seL4_TCB_Resume 100])"
  by code_simp

text \<open>
  Claim C2, as the code has it. \<open>main\<close> takes two slots: \<^verbatim>\<open>info->empty.start\<close> for the
  thread object and the next identifier for the scheduling context. The first invocation
  of a run whose first search returns is the retype into \<^verbatim>\<open>info->empty.start\<close>, and
  when the kernel accepts it and the second search returns, the second invocation is the
  retype into the next slot; no retype of a run goes anywhere else. The two slots are
  distinct, and strictly increasing and inside the free range whenever the range holds at
  least two slots. No allocation compares with \<^verbatim>\<open>info->empty.end\<close> and none fails when
  the range is exhausted: the run is the same whatever the end of the range is.
\<close>

theorem slots_taken:
  fixes info :: "'a::len word seL4_BootInfo" and lib kern thread_2 thread_2_stack k
  defines "s \<equiv> start (empty info)"
    and "r \<equiv> run lib kern thread_2 thread_2_stack info k"
    and "cnode \<equiv> seL4_CapInitThreadCNode lib"
  shows "(\<forall>u ty bits root ni nd off n.
            seL4_Untyped_Retype u ty bits root ni nd off n \<in> set (snd r) \<longrightarrow>
            off = (case ty of seL4_TCBObject \<Rightarrow> s | seL4_SchedContextObject \<Rightarrow> s + 1))
       \<and> s \<noteq> s + 1
       \<and> (unat s + 2 \<le> unat (end_excl (empty info)) \<longrightarrow>
            s < s + 1 \<and> s + 1 < end_excl (empty info))
       \<and> (\<forall>e. run lib kern thread_2 thread_2_stack
                  (info\<lparr>empty := \<lparr>start = s, end_excl = e\<rparr>\<rparr>) k = r)
       \<and> (\<forall>u1. get_untyped info (ucast (BIT (seL4_TCBBits lib) :: 'a word)) = Some (u1, info)
            \<longrightarrow> take 1 (snd r) =
                  [seL4_Untyped_Retype u1 seL4_TCBObject (of_nat (seL4_TCBBits lib))
                     cnode cnode 32 s 1])
       \<and> (\<forall>u1 u2.
            get_untyped info (ucast (BIT (seL4_TCBBits lib) :: 'a word)) = Some (u1, info)
            \<and> get_untyped info (push_bit (seL4_MinSchedContextBits lib) 1) = Some (u2, info)
            \<and> fst (kern (seL4_Untyped_Retype u1 seL4_TCBObject (of_nat (seL4_TCBBits lib))
                       cnode cnode 32 s 1) k) = seL4_NoError
            \<longrightarrow> take 2 (snd r) =
                  [seL4_Untyped_Retype u1 seL4_TCBObject (of_nat (seL4_TCBBits lib))
                     cnode cnode 32 s 1,
                   seL4_Untyped_Retype u2 seL4_SchedContextObject
                     (of_nat (seL4_MinSchedContextBits lib)) cnode cnode 32 (s + 1) 1])"
proof (intro conjI allI impI)
  fix u ty bits root ni nd off n
  assume call: "seL4_Untyped_Retype u ty bits root ni nd off n \<in> set (snd r)"
  consider (undefined) "get_untyped info (ucast (BIT (seL4_TCBBits lib) :: 'a word)) = None"
    | (returns) u1 where
      "get_untyped info (ucast (BIT (seL4_TCBBits lib) :: 'a word)) = Some (u1, info)"
    by (rule get_untyped_cases)
  then show "off = (case ty of seL4_TCBObject \<Rightarrow> s | seL4_SchedContextObject \<Rightarrow> s + 1)"
  proof cases
    case undefined
    then show ?thesis
      using call unfolding r_def by (simp add: run_undefined_first)
  next
    case g1: (returns u1)
    consider (undefined) "get_untyped info (push_bit (seL4_MinSchedContextBits lib) 1) = None"
      | (returns) u2 where
        "get_untyped info (push_bit (seL4_MinSchedContextBits lib) 1) = Some (u2, info)"
      by (rule get_untyped_cases)
    then show ?thesis
    proof cases
      case undefined
      from run_undefined_second [OF g1 undefined, of kern thread_2 thread_2_stack k] call
      show ?thesis unfolding r_def s_def by auto
    next
      case g2: (returns u2)
      from run_shape [OF g1 g2, of kern thread_2 thread_2_stack k] call
      show ?thesis unfolding r_def s_def by auto
    qed
  qed
next
  show "s \<noteq> s + 1" by simp
next
  assume room: "unat s + 2 \<le> unat (end_excl (empty info))"
  have "unat (end_excl (empty info)) < 2 ^ LENGTH('a)" by (rule unsigned_less)
  with room have "unat s + 1 < 2 ^ LENGTH('a)" by linarith
  then have "unat s + unat (1 :: 'a word) < 2 ^ LENGTH('a)" by simp
  then have "unat (s + 1) = unat s + unat (1 :: 'a word)"
    by (rule unat_add_lem [THEN iffD1])
  then have one: "unat (s + 1) = unat s + 1" by simp
  then show "s < s + 1" by (simp add: word_less_nat_alt)
  from one room show "s + 1 < end_excl (empty info)" by (simp add: word_less_nat_alt)
next
  fix e
  show "run lib kern thread_2 thread_2_stack (info\<lparr>empty := \<lparr>start = s, end_excl = e\<rparr>\<rparr>) k = r"
    unfolding r_def s_def by (rule run_ignores_end)
next
  fix u1
  assume g1: "get_untyped info (ucast (BIT (seL4_TCBBits lib) :: 'a word)) = Some (u1, info)"
  consider (undefined) "get_untyped info (push_bit (seL4_MinSchedContextBits lib) 1) = None"
    | (returns) u2 where
      "get_untyped info (push_bit (seL4_MinSchedContextBits lib) 1) = Some (u2, info)"
    by (rule get_untyped_cases)
  then show "take 1 (snd r) =
      [seL4_Untyped_Retype u1 seL4_TCBObject (of_nat (seL4_TCBBits lib)) cnode cnode 32 s 1]"
  proof cases
    case undefined
    from run_undefined_second [OF g1 undefined, of kern thread_2 thread_2_stack k]
    show ?thesis unfolding r_def s_def cnode_def by auto
  next
    case g2: (returns u2)
    from run_shape [OF g1 g2, of kern thread_2 thread_2_stack k]
    show ?thesis unfolding r_def s_def cnode_def by auto
  qed
next
  fix u1 u2
  assume a: "get_untyped info (ucast (BIT (seL4_TCBBits lib) :: 'a word)) = Some (u1, info)
      \<and> get_untyped info (push_bit (seL4_MinSchedContextBits lib) 1) = Some (u2, info)
      \<and> fst (kern (seL4_Untyped_Retype u1 seL4_TCBObject (of_nat (seL4_TCBBits lib))
                 cnode cnode 32 s 1) k) = seL4_NoError"
  then have g1: "get_untyped info (ucast (BIT (seL4_TCBBits lib) :: 'a word)) = Some (u1, info)"
    and g2: "get_untyped info (push_bit (seL4_MinSchedContextBits lib) 1) = Some (u2, info)"
    and ok: "fst (kern (seL4_Untyped_Retype u1 seL4_TCBObject (of_nat (seL4_TCBBits lib))
                 (seL4_CapInitThreadCNode lib) (seL4_CapInitThreadCNode lib) 32
                 (start (empty info)) 1) k) = seL4_NoError"
    unfolding s_def cnode_def by blast+
  from run_first_retype_accepted [where kern = kern and k = k, OF g1 ok,
      of thread_2 thread_2_stack]
    run_shape [OF g1 g2, of kern thread_2 thread_2_stack k]
  show "take 2 (snd r) =
      [seL4_Untyped_Retype u1 seL4_TCBObject (of_nat (seL4_TCBBits lib)) cnode cnode 32 s 1,
       seL4_Untyped_Retype u2 seL4_SchedContextObject
         (of_nat (seL4_MinSchedContextBits lib)) cnode cnode 32 (s + 1) 1]"
    unfolding r_def s_def cnode_def by auto
qed

text \<open>
  In the scenario the range holds ten slots, and the first two invocations of the run
  take the slots 100 and 101.
\<close>

theorem slots_taken_witness:
  "unat (start (empty (scenario_info :: 32 word seL4_BootInfo))) + 2
     \<le> unat (end_excl (empty (scenario_info :: 32 word seL4_BootInfo)))
   \<and> take 2 (snd (run scenario_lib accepting 0x8000 0x10000
                    (scenario_info :: 32 word seL4_BootInfo) ())) =
       [seL4_Untyped_Retype 50 seL4_TCBObject 12 2 2 32 100 1,
        seL4_Untyped_Retype 51 seL4_SchedContextObject 16 2 2 32 101 1]
   \<and> (100 :: 32 word) < 101 \<and> (101 :: 32 word) < 110"
proof -
  let ?info = "scenario_info :: 32 word seL4_BootInfo"
  let ?lib = "scenario_lib :: 32 word libsel4"
  have room: "unat (start (empty ?info)) + 2 \<le> unat (end_excl (empty ?info))"
    by (simp add: scenario_info_def)
  have g1: "get_untyped ?info (ucast (BIT (seL4_TCBBits ?lib) :: 32 word)) = Some (50, ?info)"
    by code_simp
  have g2: "get_untyped ?info (push_bit (seL4_MinSchedContextBits ?lib) 1) = Some (51, ?info)"
    by code_simp
  have ok: "fst (accepting (seL4_Untyped_Retype 50 seL4_TCBObject (of_nat (seL4_TCBBits ?lib))
               (seL4_CapInitThreadCNode ?lib) (seL4_CapInitThreadCNode ?lib) 32
               (start (empty ?info)) 1) ()) = seL4_NoError"
    by (simp add: accepting_def)
  note t = slots_taken [of ?lib accepting "0x8000" "0x10000" ?info "()"]
  from t room have order: "start (empty ?info) < start (empty ?info) + 1
      \<and> start (empty ?info) + 1 < end_excl (empty ?info)"
    by blast
  from t g1 g2 ok have "take 2 (snd (run ?lib accepting 0x8000 0x10000 ?info ())) =
      [seL4_Untyped_Retype 50 seL4_TCBObject (of_nat (seL4_TCBBits ?lib))
         (seL4_CapInitThreadCNode ?lib) (seL4_CapInitThreadCNode ?lib) 32
         (start (empty ?info)) 1,
       seL4_Untyped_Retype 51 seL4_SchedContextObject
         (of_nat (seL4_MinSchedContextBits ?lib))
         (seL4_CapInitThreadCNode ?lib) (seL4_CapInitThreadCNode ?lib) 32
         (start (empty ?info) + 1) 1]"
    by blast
  with order room show ?thesis
    by (simp add: scenario_info_def scenario_lib_def)
qed

text \<open>
  The claim as stated fails when the free range holds the single slot 100: the second
  allocation, made after the range is exhausted, returns 101 and the bootstrap succeeds.
\<close>

theorem exhausted_range_counterexample:
  "end_excl (empty (scenario_info\<lparr>empty := \<lparr>start = 100, end_excl = 101\<rparr>\<rparr>
      :: 32 word seL4_BootInfo)) = 101
   \<and> run scenario_lib accepting 0x8000 0x10000
     (scenario_info\<lparr>empty := \<lparr>start = 100, end_excl = 101\<rparr>\<rparr> :: 32 word seL4_BootInfo) () =
     (Return 0,
      [seL4_Untyped_Retype 50 seL4_TCBObject 12 2 2 32 100 1,
       seL4_Untyped_Retype 51 seL4_SchedContextObject 16 2 2 32 101 1,
       seL4_SchedControl_Configure 40 101 10000 10000 0,
       seL4_TCB_Configure 100 0 (255, 255) 101 2 0 3 0 0 0,
       seL4_TCB_WriteRegisters 100 False 0 2
         \<lparr>eip = 0x8000, esp = 0x11000, eflags = 0, eax = 0, ebx = 0, ecx = 0, edx = 0,
          esi = 0, edi = 0, ebp = 0, tls_base = 0, fs = 0, gs = 0\<rparr>,
       seL4_TCB_Resume 100])"
  by code_simp

text \<open>
  Claim C8. Loading the registers writes exactly two registers of the new thread, the
  instruction pointer and the stack pointer, and every other register is left at zero.
  On the code: every register write of a run is for the new thread object, does not
  resume it, and has a count of 2 and the register set \<open>loaded\<close>, whose first two
  registers are \<^verbatim>\<open>thread_2\<close> and the stack top and whose eleven other registers are
  zero; and a run whose searches return, whose stack top passes the alignment test and
  whose kernel accepts the invocations makes this write exactly once and returns 0.
  On the modelled kernel side: a write of 2 registers of \<open>loaded\<close> changes the
  instruction pointer and the stack pointer of a register file and nothing else, so that
  a register file created with zeros becomes \<open>loaded\<close>, every other register still
  zero.
\<close>

theorem registers_loaded:
  fixes info :: "'a::len word seL4_BootInfo" and lib kern thread_2 thread_2_stack k
  defines "sp \<equiv> thread_2_stack_top thread_2_stack"
    and "r \<equiv> run lib kern thread_2 thread_2_stack info k"
  defines "loaded \<equiv>
     \<lparr>eip = thread_2, esp = sp, eflags = 0, eax = 0, ebx = 0, ecx = 0, edx = 0, esi = 0,
      edi = 0, ebp = 0, tls_base = 0, fs = 0, gs = 0\<rparr>"
  shows "(\<forall>t rs f n regs. seL4_TCB_WriteRegisters t rs f n regs \<in> set (snd r) \<longrightarrow>
            t = start (empty info) \<and> rs = False \<and> f = 0 \<and> n = 2 \<and> regs = loaded)
       \<and> ((\<forall>call k'. fst (kern call k') = seL4_NoError)
            \<and> (\<exists>u1. get_untyped info (ucast (BIT (seL4_TCBBits lib) :: 'a word))
                        = Some (u1, info))
            \<and> (\<exists>u2. get_untyped info (push_bit (seL4_MinSchedContextBits lib) 1)
                        = Some (u2, info))
            \<and> start (schedcontrol info) + nodeID info \<noteq> seL4_CapNull
            \<and> sp mod scast (stack_alignment_requirement TYPE('a)) = 0
            \<longrightarrow> fst r = Return 0
                \<and> count_list (snd r)
                     (seL4_TCB_WriteRegisters (start (empty info)) False 0 2 loaded) = 1)
       \<and> take 2 (register_list loaded) = [thread_2, sp]
       \<and> drop 2 (register_list loaded) = replicate 11 0
       \<and> (\<forall>tcb. write_registers 2 loaded tcb = tcb\<lparr>eip := thread_2, esp := sp\<rparr>)
       \<and> write_registers 2 loaded zero_registers = loaded"
proof -
  have every: "t = start (empty info) \<and> rs = False \<and> f = 0 \<and> n = 2 \<and> regs = loaded"
    if call: "seL4_TCB_WriteRegisters t rs f n regs \<in> set (snd r)" for t rs f n regs
  proof -
    consider (undefined) "get_untyped info (ucast (BIT (seL4_TCBBits lib) :: 'a word)) = None"
      | (returns) u1 where
        "get_untyped info (ucast (BIT (seL4_TCBBits lib) :: 'a word)) = Some (u1, info)"
      by (rule get_untyped_cases)
    then show ?thesis
    proof cases
      case undefined
      then show ?thesis
        using call unfolding r_def by (simp add: run_undefined_first)
    next
      case g1: (returns u1)
      consider (undefined) "get_untyped info (push_bit (seL4_MinSchedContextBits lib) 1) = None"
        | (returns) u2 where
          "get_untyped info (push_bit (seL4_MinSchedContextBits lib) 1) = Some (u2, info)"
        by (rule get_untyped_cases)
      then show ?thesis
      proof cases
        case undefined
        from run_undefined_second [OF g1 undefined, of kern thread_2 thread_2_stack k] call
        show ?thesis unfolding r_def by auto
      next
        case g2: (returns u2)
        from run_shape [OF g1 g2, of kern thread_2 thread_2_stack k] call
        show ?thesis unfolding r_def loaded_def sp_def by auto
      qed
    qed
  qed
  have once: "fst r = Return 0
      \<and> count_list (snd r)
            (seL4_TCB_WriteRegisters (start (empty info)) False 0 2 loaded) = 1"
    if a: "(\<forall>call k'. fst (kern call k') = seL4_NoError)
      \<and> (\<exists>u1. get_untyped info (ucast (BIT (seL4_TCBBits lib) :: 'a word)) = Some (u1, info))
      \<and> (\<exists>u2. get_untyped info (push_bit (seL4_MinSchedContextBits lib) 1) = Some (u2, info))
      \<and> start (schedcontrol info) + nodeID info \<noteq> seL4_CapNull
      \<and> sp mod scast (stack_alignment_requirement TYPE('a)) = 0"
  proof -
    from a obtain u1 u2
      where g1: "get_untyped info (ucast (BIT (seL4_TCBBits lib) :: 'a word)) = Some (u1, info)"
        and g2: "get_untyped info (push_bit (seL4_MinSchedContextBits lib) 1) = Some (u2, info)"
      by blast
    from a have ok: "\<forall>call k'. fst (kern call k') = seL4_NoError"
      and ctl: "start (schedcontrol info) + nodeID info \<noteq> seL4_CapNull"
      and al: "thread_2_stack_top thread_2_stack
                 mod scast (stack_alignment_requirement TYPE('a)) = 0"
      unfolding sp_def by blast+
    note whole = run_accepted [OF g1 g2 ok ctl, of thread_2 thread_2_stack k]
    from whole al show ?thesis
      unfolding r_def loaded_def sp_def by simp
  qed
  have first_two: "take 2 (register_list loaded) = [thread_2, sp]"
    by (simp add: register_list_def loaded_def numeral_2_eq_2)
  have others: "drop 2 (register_list loaded) = replicate 11 0"
    by (simp add: register_list_def loaded_def numeral_2_eq_2 numeral_eq_Suc)
  have frame: "write_registers 2 loaded tcb = tcb\<lparr>eip := thread_2, esp := sp\<rparr>" for tcb
    by (simp add: write_two_registers loaded_def)
  have created: "write_registers 2 loaded zero_registers = loaded"
    by (simp add: write_two_registers loaded_def zero_registers_def)
  from every once first_two others frame created show ?thesis
    by blast
qed

text \<open>
  The run of the scenario makes the register write once, with \<^verbatim>\<open>thread_2\<close> at
  \<open>0x8000\<close> and the stack top \<open>0x11000\<close>, and returns 0.
\<close>

theorem registers_loaded_witness:
  "fst (run scenario_lib accepting 0x8000 0x10000 (scenario_info :: 32 word seL4_BootInfo) ())
     = Return 0
   \<and> count_list
       (snd (run scenario_lib accepting 0x8000 0x10000 (scenario_info :: 32 word seL4_BootInfo) ()))
       (seL4_TCB_WriteRegisters 100 False 0 2
          \<lparr>eip = 0x8000, esp = 0x11000, eflags = 0, eax = 0, ebx = 0, ecx = 0, edx = 0,
           esi = 0, edi = 0, ebp = 0, tls_base = 0, fs = 0, gs = 0\<rparr>) = 1"
proof -
  let ?info = "scenario_info :: 32 word seL4_BootInfo"
  let ?lib = "scenario_lib :: 32 word libsel4"
  have ok: "\<forall>call k'. fst (accepting call (k' :: unit)) = seL4_NoError"
    by (simp add: accepting_def)
  have g1: "\<exists>u1. get_untyped ?info (ucast (BIT (seL4_TCBBits ?lib) :: 32 word))
      = Some (u1, ?info)"
  proof
    show "get_untyped ?info (ucast (BIT (seL4_TCBBits ?lib) :: 32 word)) = Some (50, ?info)"
      by code_simp
  qed
  have g2: "\<exists>u2. get_untyped ?info (push_bit (seL4_MinSchedContextBits ?lib) 1)
      = Some (u2, ?info)"
  proof
    show "get_untyped ?info (push_bit (seL4_MinSchedContextBits ?lib) 1) = Some (51, ?info)"
      by code_simp
  qed
  have ctl: "start (schedcontrol ?info) + nodeID ?info \<noteq> seL4_CapNull"
    by (simp add: scenario_info_def seL4_CapNull_def)
  have sp: "thread_2_stack_top (0x10000 :: 32 word) = 0x11000"
    by (simp add: thread_2_stack_top_def THREAD_2_STACK_SIZE_def)
  have al: "thread_2_stack_top (0x10000 :: 32 word)
      mod scast (stack_alignment_requirement TYPE(32)) = 0"
    by (simp add: sp stack_alignment_requirement_def sizeof_seL4_Word_def)
  from registers_loaded [of ?lib accepting "0x8000" "0x10000" ?info "()"] ok g1 g2 ctl al
  have "fst (run ?lib accepting 0x8000 0x10000 ?info ()) = Return 0
      \<and> count_list (snd (run ?lib accepting 0x8000 0x10000 ?info ()))
          (seL4_TCB_WriteRegisters (start (empty ?info)) False 0 2
             \<lparr>eip = 0x8000, esp = thread_2_stack_top 0x10000, eflags = 0, eax = 0, ebx = 0,
              ecx = 0, edx = 0, esi = 0, edi = 0, ebp = 0, tls_base = 0, fs = 0, gs = 0\<rparr>) = 1"
    by blast
  then show ?thesis by (simp add: sp scenario_info_def)
qed

text \<open>
  Claim C10, as the code has it. The stack top is the address of the array plus its size
  of \<open>512 * 8 = 4096\<close> bytes. With a base that is aligned to 8 bytes it is a multiple
  of twice the size of a word, and the alignment test of \<open>main\<close> never fires, on the
  platforms where twice the size of a word divides 8, that is with words of 1, 2 or 4
  bytes. With words of 8 bytes the requirement is 16 bytes, which a base aligned to 8
  bytes does not ensure, and the test can fire.
\<close>

theorem alignment_test_passes_on_small_words:
  fixes info :: "'a::len word seL4_BootInfo" and lib kern thread_2 thread_2_stack k
  assumes word: "sizeof_seL4_Word TYPE('a) * 2 dvd 8"
    and base: "8 dvd unat thread_2_stack"
  shows "thread_2_stack_top thread_2_stack mod scast (stack_alignment_requirement TYPE('a)) = 0
       \<and> fst (run lib kern thread_2 thread_2_stack info k) \<noteq> Fatal Stack_top_misaligned"
proof -
  have "sizeof_seL4_Word TYPE('a) * 2 \<le> 8" using word by (rule dvd_imp_le) simp
  then have "LENGTH('a) div 8 \<le> 4" by (simp add: sizeof_seL4_Word_def)
  then have "LENGTH('a) < 40" by linarith
  then have small: "LENGTH('a) < 2 ^ 31" by simp
  have "sizeof_seL4_Word TYPE('a) \<noteq> 0" using word by (intro notI) simp
  then have L: "8 \<le> LENGTH('a)" by (simp add: sizeof_seL4_Word_def)
  have "sizeof_seL4_Word TYPE('a) * 2 dvd unat (thread_2_stack_top thread_2_stack)"
    using word stack_top_multiple_of_8 [OF L base] by (rule dvd_trans)
  then have al: "thread_2_stack_top thread_2_stack
      mod scast (stack_alignment_requirement TYPE('a)) = 0"
    by (simp only: aligned_iff [OF small])
  have "fst (run lib kern thread_2 thread_2_stack info k) \<noteq> Fatal Stack_top_misaligned"
  proof -
    consider (undefined) "get_untyped info (ucast (BIT (seL4_TCBBits lib) :: 'a word)) = None"
      | (returns) u1 where
        "get_untyped info (ucast (BIT (seL4_TCBBits lib) :: 'a word)) = Some (u1, info)"
      by (rule get_untyped_cases)
    then show ?thesis
    proof cases
      case undefined
      then show ?thesis by (simp add: run_undefined_first)
    next
      case g1: (returns u1)
      consider (undefined) "get_untyped info (push_bit (seL4_MinSchedContextBits lib) 1) = None"
        | (returns) u2 where
          "get_untyped info (push_bit (seL4_MinSchedContextBits lib) 1) = Some (u2, info)"
        by (rule get_untyped_cases)
      then show ?thesis
      proof cases
        case undefined
        from run_undefined_second [OF g1 undefined, of kern thread_2 thread_2_stack k]
        show ?thesis by auto
      next
        case g2: (returns u2)
        from run_shape [OF g1 g2, of kern thread_2 thread_2_stack k] al
        show ?thesis by auto
      qed
    qed
  qed
  with al show ?thesis by simp
qed

text \<open>On a 32 bit platform a stack at \<open>0x601008\<close> passes the test.\<close>

theorem alignment_test_passes_on_small_words_witness:
  "sizeof_seL4_Word TYPE(32) * 2 dvd 8 \<and> 8 dvd unat (0x601008 :: 32 word)
   \<and> thread_2_stack_top (0x601008 :: 32 word) mod scast (stack_alignment_requirement TYPE(32)) = 0
   \<and> fst (run scenario_lib accepting 0x8000 0x601008 (scenario_info :: 32 word seL4_BootInfo) ())
       \<noteq> Fatal Stack_top_misaligned"
proof -
  have word: "sizeof_seL4_Word TYPE(32) * 2 dvd 8" by (simp add: sizeof_seL4_Word_def)
  have base: "8 dvd unat (0x601008 :: 32 word)" by simp
  from alignment_test_passes_on_small_words [OF word base, of scenario_lib accepting "0x8000"
      scenario_info "()"] word base
  show ?thesis by simp
qed

text \<open>
  The claim as stated fails with words of 8 bytes: the same stack address is aligned to 8
  bytes, its top \<open>0x602008\<close> is not a multiple of 16, and the run ends in the fatal
  error of the alignment test.
\<close>

theorem alignment_test_fires_counterexample:
  "8 dvd unat (0x601008 :: 64 word)
   \<and> \<not> sizeof_seL4_Word TYPE(64) * 2 dvd unat (thread_2_stack_top (0x601008 :: 64 word))
   \<and> fst (run scenario_lib accepting 0x8000 0x601008 (scenario_info :: 64 word seL4_BootInfo) ())
       = Fatal Stack_top_misaligned"
proof -
  have "fst (run scenario_lib accepting 0x8000 0x601008 (scenario_info :: 64 word seL4_BootInfo) ())
       = Fatal Stack_top_misaligned"
    by code_simp
  then show ?thesis
    by (simp add: sizeof_seL4_Word_def thread_2_stack_top_def THREAD_2_STACK_SIZE_def)
qed

end
